(* ===== verification/Prelude.thy ===== *)
theory Prelude
  imports Main "HOL-Library.AList" "HOL-Library.Multiset"
begin

text \<open>
  Shared vocabulary of the development: the names of the model's basic types, the
  collection of facts that unfold the message-feed operations, and the generic lemmas on
  lists and association lists that the component theories use.  Nothing here is specific
  to one component.
\<close>

named_theorems feed_defs "unfolding equations of the Messages controller operations"

type_synonym pid = nat   \<comment> \<open>the controller-assigned sequence id, \<open>_pId\<close> in \<open>messages.d.ts\<close>\<close>
type_synonym time = nat  \<comment> \<open>milliseconds on the host clock\<close>

subsection \<open>Lists\<close>

text \<open>Keeping the elements whose key differs from \<open>k\<close> is \<open>removeAll k\<close> on the keys.\<close>

lemma map_filter_filter_key_neq:
  "map f (filter (\<lambda>x. f x \<noteq> k \<and> P x) xs) = removeAll k (map f (filter P xs))"
  by (induction xs) auto

text \<open>When keys are distinct, dropping every element with the key of \<open>x\<close> drops \<open>x\<close> only.\<close>

lemma filter_key_neq_remove1:
  "distinct (map f xs) \<Longrightarrow> x \<in> set xs \<Longrightarrow> filter (\<lambda>y. f y \<noteq> f x) xs = remove1 x xs"
proof (induction xs)
  case Nil
  then show ?case by simp
next
  case (Cons y ys)
  show ?case
  proof (cases "y = x")
    case True
    with Cons.prems have "f x \<notin> f ` set ys" by simp
    then have "\<forall>z\<in>set ys. f z \<noteq> f x" by (metis rev_image_eqI)
    with True show ?thesis by (simp add: filter_id_conv)
  next
    case False
    with Cons.prems have "f y \<noteq> f x" by auto
    with False Cons show ?thesis by simp
  qed
qed

text \<open>A strictly increasing list of keys stays strictly increasing under filtering and
  under appending larger keys.\<close>

lemma sorted_wrt_less_upt: "sorted_wrt (<) [a..<b]"
  by (simp add: sorted_wrt_iff_nth_less)

text \<open>\<open>find\<close> returns an element of the list that satisfies the predicate.\<close>

lemma find_SomeD:
  assumes "find P xs = Some x"
  shows "x \<in> set xs \<and> P x"
  using assms by (auto simp: find_Some_iff)

subsection \<open>Association lists\<close>

lemma map_of_None_iff_keys: "(map_of al k = None) = (k \<notin> set (map fst al))"
  by (simp add: map_of_eq_None_iff)

end
