(* ===== verification/Messages_Types.thy ===== *)
theory Messages_Types
  imports Prelude
begin

text \<open>
  The data of the Messages component as \<open>src/components/lib/messages/messages.d.ts\<close>
  declares it: the severity union, the caller-facing message descriptor
  \<open>MessagesMessage\<close>, one element of the component state \<open>MessagesState.messages\<close>
  (an entry \<open>{_pId, message}\<close>), the argument type \<open>MessagesMessage | MessagesMessage[]\<close>
  of \<open>show\<close>, \<open>replace\<close> and \<open>remove\<close>, and the callbacks of \<open>MessagesProps\<close>
  as the outputs the controller emits.  The defaults the declaration documents
  (\<open>closable\<close> true, \<open>life\<close> 3000) are read by the accessors at the end.
\<close>

section \<open>Severity, message descriptors and entries\<close>

datatype severity = Success | Info | Warn | Error | Secondary | Contrast

text \<open>A \<open>React.ReactNode\<close> is only displayed, never inspected, by the controller; it is
  modelled by the text it renders.\<close>

type_synonym node = string

text \<open>\<open>MessagesMessage\<close>: every optional field is an \<open>option\<close>; the icon and
  pass-through styling fields (\<open>closeIcon\<close>, \<open>icon\<close>, \<open>pt\<close>, \<open>ptOptions\<close>) are
  rendering options that no operation reads and are left out.\<close>

record message =
  msg_id :: "string option"
  severity :: "severity option"
  content :: "node option"
  summary :: "node option"
  detail :: "node option"
  closable :: "bool option"
  sticky :: "bool option"
  life :: "int option"
  unstyled :: "bool option"

text \<open>One element of \<open>MessagesState.messages\<close>: the controller's sequence id and the
  caller's descriptor.\<close>

record entry =
  pId :: pid
  message :: message

text \<open>The argument type \<open>MessagesMessage | MessagesMessage[]\<close>.\<close>

datatype 'a one_or_many = One 'a | Many "'a list"

primrec as_list :: "'a one_or_many \<Rightarrow> 'a list" where
  "as_list (One x) = [x]"
| "as_list (Many xs) = xs"

text \<open>What the controller hands to its collaborators: the Renderer's snapshot of the
  whole list, and the \<open>onRemove\<close> and \<open>onClick\<close> callbacks of \<open>MessagesProps\<close>, each
  called with the descriptor.\<close>

datatype feed_output = Render "entry list" | OnRemove message | OnClick message

section \<open>Documented defaults\<close>

definition default_life :: int where
  "default_life = 3000"

definition is_closable :: "message \<Rightarrow> bool" where
  "is_closable m \<longleftrightarrow> closable m \<noteq> Some False"

definition is_sticky :: "message \<Rightarrow> bool" where
  "is_sticky m \<longleftrightarrow> sticky m = Some True"

text \<open>The delay before automatic removal: \<open>life\<close> when it is given and positive, the
  default 3000 otherwise (an absent, zero or negative \<open>life\<close> never means ``no delay'').\<close>

definition effective_life :: "message \<Rightarrow> time" where
  "effective_life m =
     (case life m of
        Some l \<Rightarrow> if 0 < l then nat l else nat default_life
      | None \<Rightarrow> nat default_life)"

text \<open>The empty descriptor \<open>{}\<close>, the starting point of the concrete descriptors in
  the examples.\<close>

definition blank_message :: message where
  "blank_message =
     \<lparr>msg_id = None, severity = None, content = None, summary = None, detail = None,
      closable = None, sticky = None, life = None, unstyled = None\<rparr>"

end
