(* ===== verification/Messages_Controller.thy ===== *)
theory Messages_Controller
  imports Messages_Types
begin

text \<open>
  The message feed controller behind the imperative API of \<open>Messages\<close>
  (\<open>show\<close>, \<open>clear\<close>, \<open>replace\<close>, \<open>remove\<close> in \<open>messages.d.ts\<close>, lines 200--225).
  The implementation file is not part of the repository; its behaviour is taken from
  the specification (sections 4.1, 5 and 9): an ordered list of entries, a counter that
  hands out sequence ids, and a table from sequence id to the deadline of the entry's
  pending removal timer.  Every public operation returns the new state and the list of
  calls it makes on its collaborators, ending with exactly one Renderer snapshot.
\<close>

section \<open>Controller state\<close>

record ctrl =
  entries :: "entry list"            \<comment> \<open>\<open>MessagesState.messages\<close>, oldest first\<close>
  next_pid :: pid                    \<comment> \<open>the sequence-id counter\<close>
  timers :: "(pid \<times> time) list"     \<comment> \<open>outstanding removal timers: id and deadline\<close>
  now :: time                        \<comment> \<open>the host clock\<close>

definition init_ctrl :: ctrl where
  "init_ctrl = \<lparr>entries = [], next_pid = 0, timers = [], now = 0\<rparr>"

section \<open>show, clear, replace\<close>

text \<open>Descriptors become entries with consecutive sequence ids, in input order.\<close>

fun mk_entries :: "pid \<Rightarrow> message list \<Rightarrow> entry list" where
  "mk_entries k [] = []"
| "mk_entries k (m # ms) = \<lparr>pId = k, message = m\<rparr> # mk_entries (Suc k) ms"

text \<open>Every new non-sticky entry gets one timer, due \<open>life\<close> milliseconds from now.\<close>

definition schedule :: "time \<Rightarrow> entry list \<Rightarrow> (pid \<times> time) list" where
  "schedule t es =
     map (\<lambda>e. (pId e, t + effective_life (message e)))
       (filter (\<lambda>e. \<not> is_sticky (message e)) es)"

definition append_messages :: "message list \<Rightarrow> ctrl \<Rightarrow> ctrl" where
  "append_messages ms s =
     (let es = mk_entries (next_pid s) ms
      in s\<lparr>entries := entries s @ es,
           next_pid := next_pid s + length ms,
           timers := timers s @ schedule (now s) es\<rparr>)"

definition messages_show :: "message one_or_many \<Rightarrow> ctrl \<Rightarrow> ctrl \<times> feed_output list" where
  "messages_show m s =
     (let s' = append_messages (as_list m) s in (s', [Render (entries s')]))"

text \<open>\<open>clear\<close> cancels every timer and empties the list; it calls no \<open>onRemove\<close>.\<close>

definition reset_feed :: "ctrl \<Rightarrow> ctrl" where
  "reset_feed s = s\<lparr>entries := [], timers := []\<rparr>"

definition messages_clear :: "ctrl \<Rightarrow> ctrl \<times> feed_output list" where
  "messages_clear s = (let s' = reset_feed s in (s', [Render (entries s')]))"

text \<open>\<open>replace\<close> is \<open>clear\<close> followed by \<open>show\<close> as one transition: the Renderer is
  given the final list only.\<close>

definition messages_replace :: "message one_or_many \<Rightarrow> ctrl \<Rightarrow> ctrl \<times> feed_output list" where
  "messages_replace m s =
     (let s' = append_messages (as_list m) (reset_feed s) in (s', [Render (entries s')]))"

section \<open>remove and click\<close>

text \<open>A reference to a message, the tagged match strategy of section 9 of the
  specification: the caller id it carries, and the handle of the exact entry it
  designates when the holder has one (the Renderer's close affordance and the timers
  hold the entry's sequence id).  \<open>messages.d.ts\<close> declares the argument of
  \<open>remove\<close> as a \<open>MessagesMessage\<close>, which carries only the caller id.\<close>

record msg_ref =
  ref_id :: "string option"
  ref_handle :: "pid option"

definition nonempty_id :: "string option \<Rightarrow> bool" where
  "nonempty_id x \<longleftrightarrow> (case x of None \<Rightarrow> False | Some i \<Rightarrow> i \<noteq> [])"

text \<open>The matching policy of section 4.1: by caller id when both the reference and the
  entry carry a non-empty one, by identity of the entry otherwise.\<close>

definition matches :: "msg_ref \<Rightarrow> entry \<Rightarrow> bool" where
  "matches r e \<longleftrightarrow>
     (if nonempty_id (ref_id r) \<and> nonempty_id (msg_id (message e))
      then ref_id r = msg_id (message e)
      else ref_handle r = Some (pId e))"

definition handle_ref :: "pid \<Rightarrow> msg_ref" where
  "handle_ref k = \<lparr>ref_id = None, ref_handle = Some k\<rparr>"

text \<open>One reference: the first matching entry leaves the list, its timer is cancelled
  and \<open>onRemove\<close> is called with its descriptor; no match is no change and no call.\<close>

definition drop_entry :: "pid \<Rightarrow> ctrl \<Rightarrow> ctrl" where
  "drop_entry k s =
     s\<lparr>entries := filter (\<lambda>e. pId e \<noteq> k) (entries s), timers := AList.delete k (timers s)\<rparr>"

definition remove_one :: "msg_ref \<Rightarrow> ctrl \<Rightarrow> ctrl \<times> feed_output list" where
  "remove_one r s =
     (case find (matches r) (entries s) of
        None \<Rightarrow> (s, [])
      | Some e \<Rightarrow> (drop_entry (pId e) s, [OnRemove (message e)]))"

fun remove_each :: "msg_ref list \<Rightarrow> ctrl \<Rightarrow> ctrl \<times> feed_output list" where
  "remove_each [] s = (s, [])"
| "remove_each (r # rs) s =
     (let (s1, out1) = remove_one r s; (s2, out2) = remove_each rs s1 in (s2, out1 @ out2))"

definition messages_remove :: "msg_ref one_or_many \<Rightarrow> ctrl \<Rightarrow> ctrl \<times> feed_output list" where
  "messages_remove rs s =
     (let (s', out) = remove_each (as_list rs) s in (s', out @ [Render (entries s')]))"

text \<open>A click on a displayed message is forwarded to \<open>onClick\<close>; nothing changes.\<close>

definition messages_click :: "msg_ref \<Rightarrow> ctrl \<Rightarrow> ctrl \<times> feed_output list" where
  "messages_click r s =
     (s, case find (matches r) (entries s) of None \<Rightarrow> [] | Some e \<Rightarrow> [OnClick (message e)])"

section \<open>Timers\<close>

text \<open>The host runs the action of timer \<open>k\<close> only while it is outstanding and due: a
  cancelled timer never fires.  The action removes the entry the timer belongs to, by
  its sequence id, along the path of \<open>remove\<close>.\<close>

definition timer_fire :: "pid \<Rightarrow> ctrl \<Rightarrow> ctrl \<times> feed_output list" where
  "timer_fire k s =
     (case map_of (timers s) k of
        None \<Rightarrow> (s, [])
      | Some d \<Rightarrow> if now s < d then (s, []) else messages_remove (One (handle_ref k)) s)"

definition clock_advance :: "time \<Rightarrow> ctrl \<Rightarrow> ctrl" where
  "clock_advance n s = s\<lparr>now := now s + n\<rparr>"

declare messages_show_def [feed_defs] messages_clear_def [feed_defs]
  messages_replace_def [feed_defs] messages_remove_def [feed_defs]
  messages_click_def [feed_defs] timer_fire_def [feed_defs] clock_advance_def [feed_defs]

section \<open>The feed invariant\<close>

text \<open>Sequence ids strictly increase along the list (display order is creation order,
  and no id occurs twice), every id is below the counter, and the timer table holds
  exactly one timer for each non-sticky entry, in list order.\<close>

definition feed_inv :: "ctrl \<Rightarrow> bool" where
  "feed_inv s \<longleftrightarrow>
     sorted_wrt (<) (map pId (entries s)) \<and>
     (\<forall>e\<in>set (entries s). pId e < next_pid s) \<and>
     map fst (timers s) = map pId (filter (\<lambda>e. \<not> is_sticky (message e)) (entries s))"

subsection \<open>Building blocks\<close>

lemma length_mk_entries [simp]: "length (mk_entries k ms) = length ms"
  by (induction ms arbitrary: k) auto

lemma mk_entries_pids [simp]: "map pId (mk_entries k ms) = [k..<k + length ms]"
  by (induction ms arbitrary: k) (auto simp: upt_rec)

lemma mk_entries_messages [simp]: "map message (mk_entries k ms) = ms"
  by (induction ms arbitrary: k) auto

lemma mk_entries_pid_range:
  "e \<in> set (mk_entries k ms) \<Longrightarrow> k \<le> pId e \<and> pId e < k + length ms"
  by (induction ms arbitrary: k) (simp, fastforce)

lemma schedule_keys [simp]:
  "map fst (schedule t es) = map pId (filter (\<lambda>e. \<not> is_sticky (message e)) es)"
  by (simp add: schedule_def)

text \<open>The deadline \<open>schedule\<close> gives an entry of the batch.\<close>

lemma map_of_schedule:
  "distinct (map pId es) \<Longrightarrow> e \<in> set es \<Longrightarrow>
   map_of (schedule t es) (pId e) =
     (if is_sticky (message e) then None else Some (t + effective_life (message e)))"
proof (induction es)
  case Nil
  then show ?case by simp
next
  case (Cons x xs)
  have keys: "fst ` set (schedule t xs) \<subseteq> pId ` set xs" by (auto simp: schedule_def)
  show ?case
  proof (cases "e = x")
    case True
    with Cons.prems keys have "map_of (schedule t xs) (pId e) = None"
      by (auto simp: map_of_eq_None_iff)
    with True show ?thesis by (simp add: schedule_def)
  next
    case False
    with Cons.prems have "e \<in> set xs" "pId x \<noteq> pId e" by auto
    with Cons show ?thesis by (simp add: schedule_def)
  qed
qed

lemma append_messages_fields [simp]:
  "entries (append_messages ms s) = entries s @ mk_entries (next_pid s) ms"
  "next_pid (append_messages ms s) = next_pid s + length ms"
  "timers (append_messages ms s) = timers s @ schedule (now s) (mk_entries (next_pid s) ms)"
  "now (append_messages ms s) = now s"
  by (simp_all add: append_messages_def Let_def)

lemma reset_feed_fields [simp]:
  "entries (reset_feed s) = []" "timers (reset_feed s) = []"
  "next_pid (reset_feed s) = next_pid s" "now (reset_feed s) = now s"
  by (simp_all add: reset_feed_def)

lemma drop_entry_fields [simp]:
  "entries (drop_entry k s) = filter (\<lambda>e. pId e \<noteq> k) (entries s)"
  "timers (drop_entry k s) = AList.delete k (timers s)"
  "next_pid (drop_entry k s) = next_pid s" "now (drop_entry k s) = now s"
  by (simp_all add: drop_entry_def)

lemma clock_advance_fields [simp]:
  "entries (clock_advance n s) = entries s" "timers (clock_advance n s) = timers s"
  "next_pid (clock_advance n s) = next_pid s" "now (clock_advance n s) = now s + n"
  by (simp_all add: clock_advance_def)

lemma remove_one_cases:
  obtains (none) "find (matches r) (entries s) = None" "remove_one r s = (s, [])"
  | (found) e where "find (matches r) (entries s) = Some e" "e \<in> set (entries s)" "matches r e"
      "remove_one r s = (drop_entry (pId e) s, [OnRemove (message e)])"
  by (cases "find (matches r) (entries s)") (auto simp: remove_one_def dest: find_SomeD)

subsection \<open>Each operation keeps the invariant\<close>

lemma append_messages_inv:
  assumes "feed_inv s"
  shows "feed_inv (append_messages ms s)"
proof -
  let ?n = "next_pid s"
  let ?es = "mk_entries ?n ms"
  have old: "\<forall>e\<in>set (entries s). pId e < ?n"
    using assms by (simp add: feed_inv_def)
  have "sorted_wrt (<) (map pId (entries s) @ [?n..<?n + length ms])"
    using assms old by (auto simp: feed_inv_def sorted_wrt_append sorted_wrt_less_upt)
  moreover have "\<forall>e\<in>set (entries s @ ?es). pId e < ?n + length ms"
    using old by (auto dest: mk_entries_pid_range)
  moreover have "map fst (timers s @ schedule (now s) ?es)
      = map pId (filter (\<lambda>e. \<not> is_sticky (message e)) (entries s @ ?es))"
    using assms by (simp add: feed_inv_def)
  ultimately show ?thesis by (simp add: feed_inv_def)
qed

lemma reset_feed_inv: "feed_inv (reset_feed s)"
  by (simp add: feed_inv_def)

lemma drop_entry_inv:
  assumes "feed_inv s"
  shows "feed_inv (drop_entry k s)"
  using assms
  by (auto simp: feed_inv_def AList.delete_keys map_filter_filter_key_neq
      intro: sorted_wrt_filter[of "(<)" "map pId (entries s)" "\<lambda>x. x \<noteq> k", simplified filter_map comp_def])

lemma remove_one_inv: "feed_inv s \<Longrightarrow> feed_inv (fst (remove_one r s))"
  by (cases r s rule: remove_one_cases) (auto intro: drop_entry_inv)

lemma remove_each_inv: "feed_inv s \<Longrightarrow> feed_inv (fst (remove_each rs s))"
proof (induction rs arbitrary: s)
  case Nil
  then show ?case by simp
next
  case (Cons r rs)
  from Cons.prems have "feed_inv (fst (remove_one r s))" by (rule remove_one_inv)
  then have "feed_inv (fst (remove_each rs (fst (remove_one r s))))" by (rule Cons.IH)
  then show ?case by (simp add: split_beta)
qed

lemma remove_each_frame:
  "next_pid (fst (remove_each rs s)) = next_pid s \<and> now (fst (remove_each rs s)) = now s"
proof (induction rs arbitrary: s)
  case Nil
  then show ?case by simp
next
  case (Cons r rs)
  have "next_pid (fst (remove_one r s)) = next_pid s \<and> now (fst (remove_one r s)) = now s"
    by (cases r s rule: remove_one_cases) simp_all
  with Cons.IH[of "fst (remove_one r s)"] show ?case by (simp add: split_beta)
qed

lemma messages_show_inv: "feed_inv s \<Longrightarrow> feed_inv (fst (messages_show m s))"
  by (simp add: messages_show_def Let_def append_messages_inv)

lemma messages_clear_inv: "feed_inv (fst (messages_clear s))"
  by (simp add: messages_clear_def reset_feed_inv)

lemma messages_replace_inv: "feed_inv (fst (messages_replace m s))"
  by (simp add: messages_replace_def Let_def append_messages_inv reset_feed_inv)

lemma messages_remove_inv: "feed_inv s \<Longrightarrow> feed_inv (fst (messages_remove rs s))"
  by (simp add: messages_remove_def split_beta remove_each_inv)

lemma messages_click_state: "fst (messages_click r s) = s"
  by (simp add: messages_click_def)

lemma timer_fire_inv: "feed_inv s \<Longrightarrow> feed_inv (fst (timer_fire k s))"
  by (simp add: timer_fire_def messages_remove_inv split: option.split)

lemma clock_advance_inv: "feed_inv s \<Longrightarrow> feed_inv (clock_advance n s)"
  by (simp add: feed_inv_def)

lemmas feed_op_inv = messages_show_inv messages_clear_inv messages_replace_inv
  messages_remove_inv timer_fire_inv clock_advance_inv

subsection \<open>Consequences of the invariant\<close>

lemma feed_inv_distinct: "feed_inv s \<Longrightarrow> distinct (map pId (entries s))"
  by (simp add: feed_inv_def strict_sorted_iff)

lemma feed_inv_timer_keys:
  "feed_inv s \<Longrightarrow> fst ` set (timers s) = pId ` {e \<in> set (entries s). \<not> is_sticky (message e)}"
proof -
  assume "feed_inv s"
  then have "set (map fst (timers s)) = set (map pId (filter (\<lambda>e. \<not> is_sticky (message e)) (entries s)))"
    by (simp add: feed_inv_def)
  then show ?thesis by auto
qed

text \<open>An id with no entry has no timer.\<close>

lemma feed_inv_no_timer:
  "feed_inv s \<Longrightarrow> k \<notin> pId ` set (entries s) \<Longrightarrow> map_of (timers s) k = None"
proof -
  assume inv: "feed_inv s" and k: "k \<notin> pId ` set (entries s)"
  have "fst ` set (timers s) \<subseteq> pId ` set (entries s)"
    using feed_inv_timer_keys[OF inv] by auto
  with k show ?thesis by (auto simp: map_of_None_iff_keys)
qed

text \<open>The entry with a given id is unique.\<close>

lemma feed_inv_pid_unique:
  "feed_inv s \<Longrightarrow> e \<in> set (entries s) \<Longrightarrow> e' \<in> set (entries s) \<Longrightarrow> pId e = pId e' \<Longrightarrow> e = e'"
  by (metis feed_inv_distinct inj_on_contraD distinct_map)

text \<open>A reference by sequence id matches the entry with that id and nothing else.\<close>

lemma matches_handle_ref [simp]: "matches (handle_ref k) e \<longleftrightarrow> pId e = k"
  by (auto simp: matches_def handle_ref_def nonempty_id_def)

lemma find_handle_ref:
  assumes "feed_inv s" "e \<in> set (entries s)"
  shows "find (matches (handle_ref (pId e))) (entries s) = Some e"
proof -
  obtain e' where e': "find (matches (handle_ref (pId e))) (entries s) = Some e'"
    using assms(2) by (cases "find (matches (handle_ref (pId e))) (entries s)")
      (auto simp: find_None_iff)
  then have "e' \<in> set (entries s)" "pId e' = pId e" by (auto dest: find_SomeD)
  with assms e' show ?thesis using feed_inv_pid_unique by metis
qed

lemma feed_inv_drop_is_remove1:
  "feed_inv s \<Longrightarrow> e \<in> set (entries s) \<Longrightarrow>
   filter (\<lambda>x. pId x \<noteq> pId e) (entries s) = remove1 e (entries s)"
  by (simp add: feed_inv_distinct filter_key_neq_remove1)

lemma remove_each_entries_subset: "set (entries (fst (remove_each rs s))) \<subseteq> set (entries s)"
proof (induction rs arbitrary: s)
  case Nil
  then show ?case by simp
next
  case (Cons r rs)
  have "set (entries (fst (remove_one r s))) \<subseteq> set (entries s)"
    by (cases r s rule: remove_one_cases) auto
  with Cons.IH[of "fst (remove_one r s)"] show ?case by (auto simp: split_beta)
qed

lemma messages_remove_entries_subset:
  "set (entries (fst (messages_remove rs s))) \<subseteq> set (entries s)"
  by (simp add: messages_remove_def split_beta remove_each_entries_subset)

lemma messages_remove_One:
  "fst (messages_remove (One r) s) = fst (remove_one r s)"
  "snd (messages_remove (One r) s) = snd (remove_one r s) @ [Render (entries (fst (remove_one r s)))]"
  by (simp_all add: messages_remove_def split_beta)

lemma remove_one_None: "find (matches r) (entries s) = None \<Longrightarrow> remove_one r s = (s, [])"
  by (simp add: remove_one_def)

lemma messages_remove_frame:
  "next_pid (fst (messages_remove rs s)) = next_pid s \<and> now (fst (messages_remove rs s)) = now s"
  by (simp add: messages_remove_def split_beta remove_each_frame)

text \<open>Once the entry with id \<open>k\<close> is gone, the timer with id \<open>k\<close> is gone too and firing
  it does nothing.\<close>

lemma gone_timer_inert:
  assumes "feed_inv s" "k \<notin> pId ` set (entries s)"
  shows "map_of (timers s) k = None \<and> timer_fire k s = (s, [])"
  using feed_inv_no_timer[OF assms] by (simp add: timer_fire_def)

text \<open>An entry that \<open>remove\<close> takes out leaves no entry with its id behind.\<close>

lemma messages_remove_gone_pid:
  assumes "feed_inv s" and "e \<in> set (entries s)"
    and "e \<notin> set (entries (fst (messages_remove rs s)))"
  shows "pId e \<notin> pId ` set (entries (fst (messages_remove rs s)))"
proof
  assume "pId e \<in> pId ` set (entries (fst (messages_remove rs s)))"
  then obtain x where x: "x \<in> set (entries (fst (messages_remove rs s)))" "pId x = pId e" by auto
  with messages_remove_entries_subset have "x \<in> set (entries s)" by blast
  with assms(1,2) x(2) have "x = e" by (metis feed_inv_pid_unique)
  with x(1) assms(3) show False by simp
qed

lemma remove_one_no_match_after:
  assumes "feed_inv s" "\<not> nonempty_id (ref_id r)"
  shows "find (matches r) (entries (fst (remove_one r s))) = None"
proof (cases r s rule: remove_one_cases)
  case none
  then show ?thesis by simp
next
  case (found e)
  with assms(2) have k: "ref_handle r = Some (pId e)" by (simp add: matches_def)
  have "\<forall>x\<in>set (entries (drop_entry (pId e) s)). \<not> matches r x"
    using k assms(2) by (simp add: matches_def)
  with found show ?thesis by (auto simp: find_None_iff)
qed

text \<open>Removing one reference that matches, and removing it again.\<close>

lemma remove_one_found:
  assumes "feed_inv s" and "find (matches r) (entries s) = Some e"
  shows "entries (fst (messages_remove (One r) s)) = remove1 e (entries s) \<and>
         map_of (timers (fst (messages_remove (One r) s))) = (map_of (timers s))(pId e := None) \<and>
         snd (messages_remove (One r) s) = [OnRemove (message e), Render (remove1 e (entries s))]"
proof -
  have e: "e \<in> set (entries s)" using assms(2) by (auto dest: find_SomeD)
  have "remove_one r s = (drop_entry (pId e) s, [OnRemove (message e)])"
    using assms(2) by (simp add: remove_one_def)
  then show ?thesis
    using feed_inv_drop_is_remove1[OF assms(1) e]
    by (simp add: messages_remove_def AList.delete_conv')
qed

lemma remove_one_twice:
  assumes "feed_inv s" and "\<not> nonempty_id (ref_id r)"
  shows "messages_remove (One r) (fst (messages_remove (One r) s)) =
           (fst (messages_remove (One r) s), [Render (entries (fst (messages_remove (One r) s)))])"
proof -
  have "find (matches r) (entries (fst (remove_one r s))) = None"
    using assms by (rule remove_one_no_match_after)
  then have "remove_one r (fst (remove_one r s)) = (fst (remove_one r s), [])"
    by (rule remove_one_None)
  then show ?thesis by (simp add: messages_remove_One prod_eq_iff)
qed

section \<open>Properties of the operations\<close>

text \<open>C8: \<open>show\<close> appends the descriptors at the end of the list, in input order, with
  consecutive sequence ids from the counter (so each is larger than every id already
  present); each new non-sticky entry gets a timer due \<open>life\<close> milliseconds after the
  call (3000 when \<open>life\<close> is absent or not positive) and a sticky one gets none; the
  Renderer is notified once, with the whole list.\<close>

theorem messages_show_appends_and_schedules:
  assumes "feed_inv s"
  shows "\<exists>new. entries (fst (messages_show m s)) = entries s @ new \<and>
           map message new = as_list m \<and>
           map pId new = [next_pid s..<next_pid s + length (as_list m)] \<and>
           (\<forall>e\<in>set (entries s). \<forall>e'\<in>set new. pId e < pId e') \<and>
           (\<forall>e'\<in>set new. map_of (timers (fst (messages_show m s))) (pId e') =
              (if is_sticky (message e') then None
               else Some (now s + (case life (message e') of
                                     Some l \<Rightarrow> if 0 < l then nat l else 3000 | None \<Rightarrow> 3000)))) \<and>
           snd (messages_show m s) = [Render (entries (fst (messages_show m s)))]"
proof -
  let ?new = "mk_entries (next_pid s) (as_list m)"
  have older: "\<forall>e\<in>set (entries s). \<forall>e'\<in>set ?new. pId e < pId e'"
    using assms by (fastforce simp: feed_inv_def dest: mk_entries_pid_range)
  have "\<forall>e'\<in>set ?new. map_of (timers (fst (messages_show m s))) (pId e') =
      (if is_sticky (message e') then None else Some (now s + effective_life (message e')))"
  proof
    fix e' assume e': "e' \<in> set ?new"
    have "pId e' \<notin> pId ` set (entries s)"
      using assms e' by (fastforce simp: feed_inv_def dest: mk_entries_pid_range)
    with assms have "map_of (timers s) (pId e') = None" by (rule feed_inv_no_timer)
    moreover have "distinct (map pId ?new)" by simp
    ultimately show "map_of (timers (fst (messages_show m s))) (pId e') =
        (if is_sticky (message e') then None else Some (now s + effective_life (message e')))"
      using e' map_of_schedule[of ?new e' "now s"]
      by (simp add: messages_show_def Let_def map_add_def split: option.split)
  qed
  with older show ?thesis
    by (intro exI[of _ ?new])
      (simp add: messages_show_def Let_def effective_life_def default_life_def split: option.split)
qed

text \<open>C6: \<open>remove\<close> of one reference, on both branches.  With no match nothing
  changes and no \<open>onRemove\<close> is called, only the Renderer is refreshed.  Otherwise
  exactly the first matching entry leaves the list, exactly its timer is cancelled,
  \<open>onRemove\<close> is called once with its descriptor and then the Renderer once.  A
  reference by identity (no caller id) removed a second time changes nothing and calls
  \<open>onRemove\<close> no more.\<close>

theorem messages_remove_reference:
  assumes "feed_inv s"
  shows "(case find (matches r) (entries s) of
            None \<Rightarrow> messages_remove (One r) s = (s, [Render (entries s)])
          | Some e \<Rightarrow>
              entries (fst (messages_remove (One r) s)) = remove1 e (entries s) \<and>
              map_of (timers (fst (messages_remove (One r) s))) = (map_of (timers s))(pId e := None) \<and>
              snd (messages_remove (One r) s) = [OnRemove (message e), Render (remove1 e (entries s))]) \<and>
         (\<not> nonempty_id (ref_id r) \<longrightarrow>
            messages_remove (One r) (fst (messages_remove (One r) s)) =
              (fst (messages_remove (One r) s), [Render (entries (fst (messages_remove (One r) s)))]))"
proof (intro conjI impI)
  show "case find (matches r) (entries s) of
            None \<Rightarrow> messages_remove (One r) s = (s, [Render (entries s)])
          | Some e \<Rightarrow>
              entries (fst (messages_remove (One r) s)) = remove1 e (entries s) \<and>
              map_of (timers (fst (messages_remove (One r) s))) = (map_of (timers s))(pId e := None) \<and>
              snd (messages_remove (One r) s) = [OnRemove (message e), Render (remove1 e (entries s))]"
  proof (cases "find (matches r) (entries s)")
    case None
    then show ?thesis by (simp add: messages_remove_One prod_eq_iff remove_one_None)
  next
    case (Some e)
    with remove_one_found[OF assms] show ?thesis by simp
  qed
next
  assume "\<not> nonempty_id (ref_id r)"
  with assms show "messages_remove (One r) (fst (messages_remove (One r) s)) =
      (fst (messages_remove (One r) s), [Render (entries (fst (messages_remove (One r) s)))])"
    by (rule remove_one_twice)
qed

text \<open>C4: \<open>clear\<close> is silent: it calls no \<open>onRemove\<close>, hands the Renderer the empty
  list once, and leaves no timer that could fire afterwards.\<close>

theorem messages_clear_silent:
  "snd (messages_clear s) = [Render []] \<and> entries (fst (messages_clear s)) = [] \<and>
   (\<forall>k. timer_fire k (fst (messages_clear s)) = (fst (messages_clear s), []))"
  by (simp add: messages_clear_def timer_fire_def)

subsection \<open>The properties at concrete inputs\<close>

text \<open>The start state, and two descriptors sharing the caller id \<open>x\<close> shown in one call
  (the duplicate-id scenario of section 8 of the specification).\<close>

lemma init_ctrl_inv: "feed_inv init_ctrl"
  by (simp add: feed_inv_def init_ctrl_def)

lemma two_x_inv:
  "feed_inv (fst (messages_show (Many [blank_message\<lparr>msg_id := Some ''x''\<rparr>,
      blank_message\<lparr>msg_id := Some ''x'', summary := Some ''B''\<rparr>]) init_ctrl))"
  by (rule messages_show_inv[OF init_ctrl_inv])

theorem messages_show_appends_and_schedules_witness:
  "let m = Many [blank_message, blank_message\<lparr>sticky := Some True\<rparr>]; s = init_ctrl
   in feed_inv s \<and>
      (\<exists>new. entries (fst (messages_show m s)) = entries s @ new \<and>
           map message new = as_list m \<and>
           map pId new = [next_pid s..<next_pid s + length (as_list m)] \<and>
           (\<forall>e\<in>set (entries s). \<forall>e'\<in>set new. pId e < pId e') \<and>
           (\<forall>e'\<in>set new. map_of (timers (fst (messages_show m s))) (pId e') =
              (if is_sticky (message e') then None
               else Some (now s + (case life (message e') of
                                     Some l \<Rightarrow> if 0 < l then nat l else 3000 | None \<Rightarrow> 3000)))) \<and>
           snd (messages_show m s) = [Render (entries (fst (messages_show m s)))])"
  using init_ctrl_inv
    messages_show_appends_and_schedules[OF init_ctrl_inv,
      of "Many [blank_message, blank_message\<lparr>sticky := Some True\<rparr>]"]
  unfolding Let_def by blast

theorem messages_remove_reference_witness:
  "let s = fst (messages_show (Many [blank_message\<lparr>msg_id := Some ''x''\<rparr>,
              blank_message\<lparr>msg_id := Some ''x'', summary := Some ''B''\<rparr>]) init_ctrl);
       r = handle_ref 1
   in feed_inv s \<and> \<not> nonempty_id (ref_id r) \<and>
      find (matches r) (entries s) =
        Some \<lparr>pId = 1, message = blank_message\<lparr>msg_id := Some ''x'', summary := Some ''B''\<rparr>\<rparr> \<and>
      (case find (matches r) (entries s) of
            None \<Rightarrow> messages_remove (One r) s = (s, [Render (entries s)])
          | Some e \<Rightarrow>
              entries (fst (messages_remove (One r) s)) = remove1 e (entries s) \<and>
              map_of (timers (fst (messages_remove (One r) s))) = (map_of (timers s))(pId e := None) \<and>
              snd (messages_remove (One r) s) = [OnRemove (message e), Render (remove1 e (entries s))]) \<and>
      messages_remove (One r) (fst (messages_remove (One r) s)) =
        (fst (messages_remove (One r) s), [Render (entries (fst (messages_remove (One r) s)))])"
proof -
  have h: "\<not> nonempty_id (ref_id (handle_ref 1))"
    by (simp add: handle_ref_def nonempty_id_def)
  have f: "find (matches (handle_ref 1)) (entries (fst (messages_show
      (Many [blank_message\<lparr>msg_id := Some ''x''\<rparr>,
             blank_message\<lparr>msg_id := Some ''x'', summary := Some ''B''\<rparr>]) init_ctrl))) =
      Some \<lparr>pId = 1, message = blank_message\<lparr>msg_id := Some ''x'', summary := Some ''B''\<rparr>\<rparr>"
    by (simp add: messages_show_def init_ctrl_def)
  show ?thesis
    using two_x_inv h f messages_remove_reference[OF two_x_inv, of "handle_ref 1"]
    unfolding Let_def by blast
qed

end
