(* ===== verification/Messages_Lifecycle.thy ===== *)
theory Messages_Lifecycle
  imports Messages_Controller
begin

text \<open>
  The controller in its environment (specification sections 4.1, 5 and 6).  One event
  is one turn of the single-threaded host queue: a call of the public API, a click or a
  press of the close affordance forwarded by the Renderer, the firing of a timer, or the
  passing of time.  The host's timer service runs a timer's action only while the timer
  is outstanding and due, and lets time pass no further than the earliest outstanding
  deadline; the Renderer offers the close affordance only on displayed, closable
  entries.  These guards are \<open>host_allows\<close>; the reachable states are those of runs
  that respect them.
\<close>

section \<open>Events and their effect\<close>

datatype feed_event =
    Show "message one_or_many"
  | Clear
  | Replace "message one_or_many"
  | Remove "msg_ref one_or_many"
  | Click msg_ref
  | Close pid
  | Fire pid
  | Advance time

text \<open>The close affordance of a displayed, closable entry removes that entry along the
  path of \<open>remove\<close> (section 4.1, click), by the handle of the exact entry the user
  closed.\<close>

definition close_entry :: "pid \<Rightarrow> ctrl \<Rightarrow> ctrl \<times> feed_output list" where
  "close_entry k s =
     (case find (\<lambda>e. pId e = k) (entries s) of
        None \<Rightarrow> (s, [])
      | Some e \<Rightarrow> if is_closable (message e) then messages_remove (One (handle_ref k)) s else (s, []))"

fun exec_event :: "feed_event \<Rightarrow> ctrl \<Rightarrow> ctrl \<times> feed_output list" where
  "exec_event (Show m) s = messages_show m s"
| "exec_event Clear s = messages_clear s"
| "exec_event (Replace m) s = messages_replace m s"
| "exec_event (Remove rs) s = messages_remove rs s"
| "exec_event (Click r) s = messages_click r s"
| "exec_event (Close k) s = close_entry k s"
| "exec_event (Fire k) s = timer_fire k s"
| "exec_event (Advance n) s = (clock_advance n s, [])"

fun host_allows :: "feed_event \<Rightarrow> ctrl \<Rightarrow> bool" where
  "host_allows (Advance n) s = (\<forall>(k, d)\<in>set (timers s). now s + n \<le> d)"
| "host_allows (Fire k) s = (case map_of (timers s) k of None \<Rightarrow> False | Some d \<Rightarrow> d \<le> now s)"
| "host_allows (Close k) s = (\<exists>e\<in>set (entries s). pId e = k \<and> is_closable (message e))"
| "host_allows _ s = True"

fun public_event :: "feed_event \<Rightarrow> bool" where
  "public_event (Show _) = True"
| "public_event Clear = True"
| "public_event (Replace _) = True"
| "public_event (Remove _) = True"
| "public_event _ = False"

text \<open>Events that take entries out on request: the public \<open>clear\<close>, \<open>replace\<close> and
  \<open>remove\<close>, and the close affordance.\<close>

fun explicit_removal :: "feed_event \<Rightarrow> bool" where
  "explicit_removal Clear = True"
| "explicit_removal (Replace _) = True"
| "explicit_removal (Remove _) = True"
| "explicit_removal (Close _) = True"
| "explicit_removal _ = False"

fun is_render :: "feed_output \<Rightarrow> bool" where
  "is_render (Render _) = True"
| "is_render _ = False"

section \<open>Runs and reachable states\<close>

fun run :: "feed_event list \<Rightarrow> ctrl \<Rightarrow> ctrl \<times> feed_output list" where
  "run [] s = (s, [])"
| "run (ev # evs) s =
     (let (s1, out1) = exec_event ev s; (s2, out2) = run evs s1 in (s2, out1 @ out2))"


inductive reachable :: "ctrl \<Rightarrow> bool" where
  start: "reachable init_ctrl"
| step: "reachable s \<Longrightarrow> host_allows ev s \<Longrightarrow> reachable (fst (exec_event ev s))"

text \<open>No outstanding timer is overdue: the host fires a timer before time passes its
  deadline.\<close>

definition timers_pending :: "ctrl \<Rightarrow> bool" where
  "timers_pending s \<longleftrightarrow> (\<forall>(k, d)\<in>set (timers s). now s \<le> d)"

fun_cases host_allows_AdvanceE: "host_allows (Advance n) s"
fun_cases host_allows_FireE: "host_allows (Fire k) s"
inductive_cases reachable_stepE: "reachable s"

section \<open>Invariants of the lifecycle\<close>

lemma close_entry_cases:
  obtains (skip) "close_entry k s = (s, [])"
  | (remove) e where "e \<in> set (entries s)" "pId e = k"
      "close_entry k s = messages_remove (One (handle_ref k)) s"
proof (cases "find (\<lambda>e. pId e = k) (entries s)")
  case None
  then show ?thesis using skip by (simp add: close_entry_def)
next
  case (Some e)
  then have e: "e \<in> set (entries s)" "pId e = k" by (auto dest: find_SomeD)
  show ?thesis
  proof (cases "is_closable (message e)")
    case True
    with Some e show ?thesis by (intro remove[of e]) (simp_all add: close_entry_def)
  next
    case False
    with Some show ?thesis by (intro skip) (simp add: close_entry_def)
  qed
qed

lemma exec_event_inv: "feed_inv s \<Longrightarrow> feed_inv (fst (exec_event ev s))"
proof (cases ev)
  case (Close k)
  assume "feed_inv s"
  then show ?thesis
    using Close by (cases k s rule: close_entry_cases) (auto intro: messages_remove_inv)
qed (auto simp: messages_click_state intro: feed_op_inv)

lemma remove_each_timers_subset: "set (timers (fst (remove_each rs s))) \<subseteq> set (timers s)"
proof (induction rs arbitrary: s)
  case Nil
  then show ?case by simp
next
  case (Cons r rs)
  have "set (timers (fst (remove_one r s))) \<subseteq> set (timers s)"
    by (cases r s rule: remove_one_cases) (auto simp: AList.delete_eq)
  with Cons.IH[of "fst (remove_one r s)"] show ?case by (auto simp: split_beta)
qed

lemma messages_remove_timers_subset:
  "set (timers (fst (messages_remove rs s))) \<subseteq> set (timers s)"
  by (simp add: messages_remove_def split_beta remove_each_timers_subset)

lemma timers_pending_remove:
  "timers_pending s \<Longrightarrow> timers_pending (fst (messages_remove rs s))"
  using messages_remove_timers_subset[of rs s] messages_remove_frame[of rs s]
  by (auto simp: timers_pending_def)

lemma timers_pending_append:
  "timers_pending s \<Longrightarrow> timers_pending (append_messages ms s)"
  by (auto simp: timers_pending_def schedule_def)

lemma timers_pending_reset: "timers_pending (reset_feed s)"
  by (simp add: timers_pending_def)

lemma timer_fire_pending: "timers_pending s \<Longrightarrow> timers_pending (fst (timer_fire k s))"
  by (simp add: timer_fire_def timers_pending_remove split: option.split)

lemma exec_event_pending:
  assumes "host_allows ev s" and "timers_pending s"
  shows "timers_pending (fst (exec_event ev s))"
proof (cases ev)
  case (Show m)
  with assms(2) show ?thesis by (simp add: messages_show_def Let_def timers_pending_append)
next
  case Clear
  then show ?thesis by (simp add: messages_clear_def timers_pending_reset)
next
  case (Replace m)
  then show ?thesis
    by (simp add: messages_replace_def Let_def timers_pending_append timers_pending_reset)
next
  case (Remove rs)
  with assms(2) show ?thesis by (simp add: timers_pending_remove)
next
  case (Click r)
  with assms(2) show ?thesis by (simp add: messages_click_state)
next
  case (Close k)
  with assms(2) show ?thesis
    by (cases k s rule: close_entry_cases) (auto intro: timers_pending_remove)
next
  case (Fire k)
  with assms(2) show ?thesis by (simp add: timer_fire_pending)
next
  case (Advance n)
  with assms(1) show ?thesis by (auto simp: timers_pending_def)
qed

lemma reachable_invariants: "reachable s \<Longrightarrow> feed_inv s \<and> timers_pending s"
proof (induction rule: reachable.induct)
  case start
  have "timers_pending init_ctrl" by (simp add: timers_pending_def init_ctrl_def)
  with init_ctrl_inv show ?case by simp
next
  case (step s ev)
  then show ?case by (simp add: exec_event_inv exec_event_pending)
qed

lemma run_inv: "feed_inv s \<Longrightarrow> feed_inv (fst (run evs s))"
  by (induction evs arbitrary: s) (simp_all add: split_beta exec_event_inv)


subsection \<open>Where entries come from and how long timers keep\<close>

text \<open>After any event, an entry is an old one or a new one with an id at least the old
  counter; the counter never decreases.\<close>

lemma append_messages_entries:
  "e \<in> set (entries (append_messages ms s)) \<Longrightarrow> e \<in> set (entries s) \<or> next_pid s \<le> pId e"
  by (auto dest: mk_entries_pid_range)

lemma messages_remove_entries:
  "e \<in> set (entries (fst (messages_remove rs s))) \<Longrightarrow> e \<in> set (entries s)"
  using messages_remove_entries_subset by blast

lemma timer_fire_cases:
  obtains (skip) "timer_fire k s = (s, [])"
  | (remove) "timer_fire k s = messages_remove (One (handle_ref k)) s"
proof (cases "map_of (timers s) k")
  case None
  then show ?thesis using skip by (simp add: timer_fire_def)
next
  case (Some d)
  show ?thesis
  proof (cases "now s < d")
    case True
    with Some show ?thesis using skip by (simp add: timer_fire_def)
  next
    case False
    with Some show ?thesis using remove by (simp add: timer_fire_def)
  qed
qed

lemma exec_event_entries:
  assumes "e \<in> set (entries (fst (exec_event ev s)))"
  shows "e \<in> set (entries s) \<or> next_pid s \<le> pId e"
proof (cases ev)
  case (Show m)
  with assms show ?thesis by (simp add: messages_show_def Let_def append_messages_entries)
next
  case Clear
  with assms show ?thesis by (simp add: messages_clear_def)
next
  case (Replace m)
  with assms have "e \<in> set (entries (append_messages (as_list m) (reset_feed s)))"
    by (simp add: messages_replace_def Let_def)
  then show ?thesis using append_messages_entries by fastforce
next
  case (Remove rs)
  with assms show ?thesis by (simp add: messages_remove_entries)
next
  case (Click r)
  with assms show ?thesis by (simp add: messages_click_state)
next
  case (Close k)
  with assms show ?thesis
    by (cases k s rule: close_entry_cases) (simp_all add: messages_remove_entries)
next
  case (Fire k)
  with assms show ?thesis
    by (cases k s rule: timer_fire_cases) (simp_all add: messages_remove_entries)
next
  case (Advance n)
  with assms show ?thesis by simp
qed

lemma exec_event_next_pid: "next_pid s \<le> next_pid (fst (exec_event ev s))"
proof (cases ev)
  case (Close k)
  then show ?thesis by (cases k s rule: close_entry_cases) (simp_all add: messages_remove_frame)
next
  case (Fire k)
  then show ?thesis by (cases k s rule: timer_fire_cases) (simp_all add: messages_remove_frame)
next
  case (Remove rs)
  then show ?thesis by (simp add: messages_remove_frame)
qed (simp_all add: messages_show_def messages_clear_def messages_replace_def Let_def
      messages_click_state)

text \<open>An id below the counter that has no entry never gets one again.\<close>

text \<open>An id below the counter that has no entry never gets one again.\<close>

lemma exec_event_gone:
  assumes "k < next_pid s" "k \<notin> pId ` set (entries s)"
  shows "k < next_pid (fst (exec_event ev s)) \<and> k \<notin> pId ` set (entries (fst (exec_event ev s)))"
proof
  show "k < next_pid (fst (exec_event ev s))"
    using assms(1) exec_event_next_pid[of s ev] by simp
  show "k \<notin> pId ` set (entries (fst (exec_event ev s)))"
  proof
    assume "k \<in> pId ` set (entries (fst (exec_event ev s)))"
    then obtain e where "e \<in> set (entries (fst (exec_event ev s)))" "pId e = k" by auto
    with exec_event_entries assms show False by fastforce
  qed
qed

lemma run_gone:
  "k < next_pid s \<Longrightarrow> k \<notin> pId ` set (entries s) \<Longrightarrow>
   k < next_pid (fst (run evs s)) \<and> k \<notin> pId ` set (entries (fst (run evs s)))"
proof (induction evs arbitrary: s)
  case Nil
  then show ?case by simp
next
  case (Cons ev evs)
  from exec_event_gone[OF Cons.prems] have
    "k < next_pid (fst (run evs (fst (exec_event ev s)))) \<and>
     k \<notin> pId ` set (entries (fst (run evs (fst (exec_event ev s)))))"
    by (intro Cons.IH) simp_all
  then show ?case by (simp add: split_beta)
qed







subsection \<open>Sticky entries and timer firing\<close>

lemma timer_fire_keeps_sticky:
  assumes "feed_inv s" "e \<in> set (entries s)" "is_sticky (message e)"
  shows "e \<in> set (entries (fst (timer_fire k s)))"
proof (cases k s rule: timer_fire_cases)
  case skip
  with assms(2) show ?thesis by simp
next
  case remove
  show ?thesis
  proof (cases "pId e = k")
    case True
    have "pId e \<notin> fst ` set (timers s)"
      using feed_inv_timer_keys[OF assms(1)] feed_inv_pid_unique[OF assms(1) assms(2)] assms(3)
      by fastforce
    with True have "map_of (timers s) k = None" by (simp add: map_of_eq_None_iff)
    then have "timer_fire k s = (s, [])" by (simp add: timer_fire_def)
    with assms(2) show ?thesis by simp
  next
    case False
    with remove assms(2) show ?thesis
      by (cases "handle_ref k" s rule: remove_one_cases) (auto simp: messages_remove_One)
  qed
qed

lemma exec_event_keeps_sticky:
  assumes "feed_inv s" "e \<in> set (entries s)" "is_sticky (message e)" "\<not> explicit_removal ev"
  shows "e \<in> set (entries (fst (exec_event ev s)))"
  using assms
  by (cases ev) (auto simp: messages_show_def Let_def messages_click_state timer_fire_keeps_sticky)

lemma remove_each_outputs: "\<forall>x\<in>set (snd (remove_each rs s)). \<exists>m. x = OnRemove m"
proof (induction rs arbitrary: s)
  case Nil
  then show ?case by simp
next
  case (Cons r rs)
  have "\<forall>x\<in>set (snd (remove_one r s)). \<exists>m. x = OnRemove m"
    by (cases r s rule: remove_one_cases) auto
  with Cons.IH[of "fst (remove_one r s)"] show ?case by (auto simp: split_beta)
qed

subsection \<open>Time can always pass\<close>





section \<open>Properties of the lifecycle\<close>

text \<open>C1: in every reachable state the sequence ids increase strictly along the list
  (so no two entries share one), all lie below the counter, the timer table holds exactly
  one timer per non-sticky entry and none for sticky or absent entries, and no
  outstanding timer is overdue.\<close>

theorem reachable_feed_consistent:
  assumes "reachable s"
  shows "sorted_wrt (<) (map pId (entries s)) \<and> (\<forall>e\<in>set (entries s). pId e < next_pid s) \<and>
         map fst (timers s) = map pId (filter (\<lambda>e. \<not> is_sticky (message e)) (entries s)) \<and>
         (\<forall>(k, d)\<in>set (timers s). now s \<le> d)"
  using reachable_invariants[OF assms] by (simp add: feed_inv_def timers_pending_def)

text \<open>C2: cancel on removal, for good.  An entry that \<open>remove\<close> takes out of the list
  leaves no timer behind, and whatever happens afterwards no entry with its id comes back,
  no timer with its id is outstanding, and firing its id does nothing: its expiry can
  never remove anything or call \<open>onRemove\<close>.\<close>

theorem removed_entry_timer_never_fires:
  assumes "feed_inv s" and "e \<in> set (entries s)"
    and "e \<notin> set (entries (fst (messages_remove rs s)))"
  shows "pId e \<notin> pId ` set (entries (fst (run evs (fst (messages_remove rs s))))) \<and>
         map_of (timers (fst (run evs (fst (messages_remove rs s))))) (pId e) = None \<and>
         timer_fire (pId e) (fst (run evs (fst (messages_remove rs s)))) =
           (fst (run evs (fst (messages_remove rs s))), [])"
proof -
  let ?s1 = "fst (messages_remove rs s)"
  have inv1: "feed_inv ?s1" using assms(1) by (rule messages_remove_inv)
  have gone1: "pId e \<notin> pId ` set (entries ?s1)"
    using assms by (rule messages_remove_gone_pid)
  have "pId e < next_pid ?s1"
    using assms(1,2) messages_remove_frame[of rs s] by (auto simp: feed_inv_def)
  then have gone: "pId e \<notin> pId ` set (entries (fst (run evs ?s1)))"
    using run_gone gone1 by blast
  have "feed_inv (fst (run evs ?s1))" using inv1 by (rule run_inv)
  with gone show ?thesis using gone_timer_inert by blast
qed

text \<open>C3: batching.  Each call of \<open>show\<close>, \<open>clear\<close>, \<open>replace\<close> or \<open>remove\<close>
  notifies the Renderer exactly once, last, with the final list; the only other calls are
  \<open>onRemove\<close> calls.\<close>

theorem public_event_single_render:
  assumes "public_event ev"
  shows "\<exists>pre. snd (exec_event ev s) = pre @ [Render (entries (fst (exec_event ev s)))] \<and>
               (\<forall>x\<in>set pre. \<exists>m. x = OnRemove m)"
proof (cases ev)
  case (Remove rs)
  then show ?thesis
    using remove_each_outputs[of "as_list rs" s]
    by (intro exI[of _ "snd (remove_each (as_list rs) s)"]) (simp add: messages_remove_def split_beta)
qed (use assms in \<open>simp_all add: messages_show_def messages_clear_def messages_replace_def Let_def\<close>)

text \<open>C5: sticky immunity.  A sticky entry stays, whatever time passes and whatever
  timers fire, until an explicit \<open>clear\<close>, \<open>replace\<close>, \<open>remove\<close> or close.\<close>

theorem sticky_entry_survives:
  assumes "feed_inv s" "e \<in> set (entries s)" "is_sticky (message e)"
    and "\<forall>ev\<in>set evs. \<not> explicit_removal ev"
  shows "e \<in> set (entries (fst (run evs s)))"
  using assms
proof (induction evs arbitrary: s)
  case Nil
  then show ?case by simp
next
  case (Cons ev evs)
  have "e \<in> set (entries (fst (exec_event ev s)))"
    using Cons.prems by (intro exec_event_keeps_sticky) simp_all
  moreover have "feed_inv (fst (exec_event ev s))" using Cons.prems(1) by (rule exec_event_inv)
  ultimately have "e \<in> set (entries (fst (run evs (fst (exec_event ev s)))))"
    using Cons.prems(3,4) by (intro Cons.IH) simp_all
  then show ?case by (simp add: split_beta)
qed


subsection \<open>The properties at concrete inputs\<close>

lemma reachable_one_shown: "reachable (fst (exec_event (Show (One blank_message)) init_ctrl))"
  by (rule reachable.step[OF reachable.start]) simp

theorem reachable_feed_consistent_witness:
  "let s = fst (exec_event (Show (One blank_message)) init_ctrl)
   in reachable s \<and>
      sorted_wrt (<) (map pId (entries s)) \<and> (\<forall>e\<in>set (entries s). pId e < next_pid s) \<and>
      map fst (timers s) = map pId (filter (\<lambda>e. \<not> is_sticky (message e)) (entries s)) \<and>
      (\<forall>(k, d)\<in>set (timers s). now s \<le> d)"
  using reachable_one_shown reachable_feed_consistent[OF reachable_one_shown]
  unfolding Let_def by blast

theorem removed_entry_timer_never_fires_witness:
  "let s = fst (messages_show (Many [blank_message\<lparr>msg_id := Some ''x''\<rparr>,
              blank_message\<lparr>msg_id := Some ''x'', summary := Some ''B''\<rparr>]) init_ctrl);
       e = \<lparr>pId = 0, message = blank_message\<lparr>msg_id := Some ''x''\<rparr>\<rparr>;
       rs = One \<lparr>ref_id = Some ''x'', ref_handle = None\<rparr>;
       evs = [Advance 3000, Show (One blank_message)]
   in feed_inv s \<and> e \<in> set (entries s) \<and> e \<notin> set (entries (fst (messages_remove rs s))) \<and>
      pId e \<notin> pId ` set (entries (fst (run evs (fst (messages_remove rs s))))) \<and>
      map_of (timers (fst (run evs (fst (messages_remove rs s))))) (pId e) = None \<and>
      timer_fire (pId e) (fst (run evs (fst (messages_remove rs s)))) =
        (fst (run evs (fst (messages_remove rs s))), [])"
proof -
  let ?s = "fst (messages_show (Many [blank_message\<lparr>msg_id := Some ''x''\<rparr>,
              blank_message\<lparr>msg_id := Some ''x'', summary := Some ''B''\<rparr>]) init_ctrl)"
  let ?rs = "One \<lparr>ref_id = Some ''x'', ref_handle = None\<rparr>"
  let ?e = "\<lparr>pId = 0, message = blank_message\<lparr>msg_id := Some ''x''\<rparr>\<rparr>"
  have in_s: "?e \<in> set (entries ?s)"
    by (simp add: messages_show_def init_ctrl_def)
  have gone: "?e \<notin> set (entries (fst (messages_remove ?rs ?s)))"
    by (simp add: messages_show_def init_ctrl_def blank_message_def messages_remove_def
        remove_one_def matches_def nonempty_id_def)
  show ?thesis
    using two_x_inv in_s gone
      removed_entry_timer_never_fires[OF two_x_inv in_s gone, of "[Advance 3000, Show (One blank_message)]"]
    unfolding Let_def by blast
qed

theorem public_event_single_render_witness:
  "let ev = Remove (One (handle_ref 0)); s = fst (messages_show (One blank_message) init_ctrl)
   in public_event ev \<and>
      (\<exists>pre. snd (exec_event ev s) = pre @ [Render (entries (fst (exec_event ev s)))] \<and>
             (\<forall>x\<in>set pre. \<exists>m. x = OnRemove m))"
proof -
  have h: "public_event (Remove (One (handle_ref 0)))" by simp
  show ?thesis
    using h public_event_single_render[OF h, of "fst (messages_show (One blank_message) init_ctrl)"]
    unfolding Let_def by blast
qed

theorem sticky_entry_survives_witness:
  "let m = blank_message\<lparr>sticky := Some True\<rparr>; s = fst (messages_show (One m) init_ctrl);
       e = \<lparr>pId = 0, message = m\<rparr>; evs = [Advance 10000, Fire 0]
   in feed_inv s \<and> e \<in> set (entries s) \<and> is_sticky (message e) \<and>
      (\<forall>ev\<in>set evs. \<not> explicit_removal ev) \<and> e \<in> set (entries (fst (run evs s)))"
proof -
  let ?m = "blank_message\<lparr>sticky := Some True\<rparr>"
  let ?s = "fst (messages_show (One ?m) init_ctrl)"
  let ?e = "\<lparr>pId = 0, message = ?m\<rparr>"
  have inv: "feed_inv ?s" by (intro messages_show_inv init_ctrl_inv)
  have e: "?e \<in> set (entries ?s)" by (simp add: messages_show_def init_ctrl_def)
  have st: "is_sticky (message ?e)" by (simp add: is_sticky_def)
  have ev: "\<forall>ev\<in>set [Advance 10000, Fire 0]. \<not> explicit_removal ev" by simp
  show ?thesis using inv e st ev sticky_entry_survives[OF inv e st ev] unfolding Let_def by blast
qed


end
