(* ===== verification/JS_Object.thy ===== *)
theory JS_Object
  imports Prelude
begin

text \<open>
  The JavaScript runtime facts the showcase pages rely on.  A plain object literal is an
  association list of its own properties in creation order; \<open>Object.entries\<close> lists
  them with the array-index keys first, in ascending numeric order, and all other string
  keys after them in creation order (the ordinary own-property-keys order of the
  language standard).  A template literal such as \<open>`source_${index}`\<close> prints a
  non-negative integer in decimal.  Both occur in the \<open>render\<close> methods of
  \<open>DataTableStyleDemoDoc\<close> and \<open>FieldsetDoc\<close>.
\<close>

section \<open>Decimal printing and parsing\<close>

definition digit_char :: "nat \<Rightarrow> char" where
  "digit_char d = char_of (48 + d)"

definition digit_value :: "char \<Rightarrow> nat" where
  "digit_value c = of_char c - (48::nat)"

definition is_digit :: "char \<Rightarrow> bool" where
  "is_digit c \<longleftrightarrow> (48::nat) \<le> of_char c \<and> of_char c \<le> (57::nat)"

text \<open>\<open>String(n)\<close> for a non-negative integer \<open>n\<close>.\<close>

fun string_of_nat :: "nat \<Rightarrow> string" where
  "string_of_nat n =
     (if n < 10 then [digit_char n] else string_of_nat (n div 10) @ [digit_char (n mod 10)])"

declare string_of_nat.simps [simp del]

definition nat_of_string :: "string \<Rightarrow> nat" where
  "nat_of_string s = foldl (\<lambda>n c. 10 * n + digit_value c) 0 s"

text \<open>\<open>String(i)\<close> for an integer \<open>i\<close>.\<close>

definition string_of_int :: "int \<Rightarrow> string" where
  "string_of_int i =
     (if i < 0 then CHR ''-'' # string_of_nat (nat (- i)) else string_of_nat (nat i))"

text \<open>A property key is an array index when it is the canonical decimal form of a number
  below \<open>2^32 - 1\<close>.\<close>

definition is_array_index :: "string \<Rightarrow> bool" where
  "is_array_index k \<longleftrightarrow>
     k \<noteq> [] \<and> list_all is_digit k \<and> string_of_nat (nat_of_string k) = k \<and>
     nat_of_string k < 2 ^ 32 - 1"

section \<open>Objects and Object.entries\<close>

type_synonym 'v js_object = "(string \<times> 'v) list"

definition object_entries :: "'v js_object \<Rightarrow> (string \<times> 'v) list" where
  "object_entries obj =
     sort_key (\<lambda>(k, _). nat_of_string k) (filter (\<lambda>(k, _). is_array_index k) obj) @
     filter (\<lambda>(k, _). \<not> is_array_index k) obj"

text \<open>\<open>Array.prototype.map\<close> with the index argument: the elements paired with their
  positions.\<close>

definition map_indexed :: "(nat \<Rightarrow> 'a \<Rightarrow> 'b) \<Rightarrow> 'a list \<Rightarrow> 'b list" where
  "map_indexed f xs = map (\<lambda>(i, x). f i x) (enumerate 0 xs)"

section \<open>Facts\<close>

lemma digit_char_simps [simp]:
  "digit_char 0 = CHR ''0''" "digit_char 1 = CHR ''1''" "digit_char 2 = CHR ''2''"
  "digit_char 3 = CHR ''3''" "digit_char 4 = CHR ''4''" "digit_char 5 = CHR ''5''"
  "digit_char 6 = CHR ''6''" "digit_char 7 = CHR ''7''" "digit_char 8 = CHR ''8''"
  "digit_char 9 = CHR ''9''"
  unfolding digit_char_def by code_simp+

lemma digit_value_digit_char [simp]: "d < 10 \<Longrightarrow> digit_value (digit_char d) = d"
  by (simp add: digit_value_def digit_char_def of_char_of)

lemma is_digit_digit_char [simp]: "d < 10 \<Longrightarrow> is_digit (digit_char d)"
  by (simp add: is_digit_def digit_char_def of_char_of)

lemma nat_of_string_snoc [simp]:
  "nat_of_string (s @ [c]) = 10 * nat_of_string s + digit_value c"
  by (simp add: nat_of_string_def)

lemma string_of_nat_nonempty [simp]: "string_of_nat n \<noteq> []"
  by (subst string_of_nat.simps) simp

lemma map_indexed_nth:
  "i < length xs \<Longrightarrow> map_indexed f xs ! i = f i (xs ! i)"
  by (simp add: map_indexed_def nth_enumerate_eq)

lemma length_map_indexed [simp]: "length (map_indexed f xs) = length xs"
  by (simp add: map_indexed_def)

lemma nat_of_string_of_nat [simp]: "nat_of_string (string_of_nat n) = n"
proof (induction n rule: string_of_nat.induct)
  case (1 n)
  show ?case
  proof (cases "n < 10")
    case True
    then show ?thesis
      by (subst string_of_nat.simps) (simp add: nat_of_string_def)
  next
    case False
    then have "nat_of_string (string_of_nat (n div 10)) = n div 10" using "1.IH" by simp
    with False show ?thesis by (subst string_of_nat.simps) simp
  qed
qed

lemma string_of_nat_inj: "string_of_nat m = string_of_nat n \<longleftrightarrow> m = n"
  by (metis nat_of_string_of_nat)

lemma mset_object_entries: "mset (object_entries obj) = mset obj"
proof -
  have "mset (object_entries obj) =
      mset (filter (\<lambda>(k, _). is_array_index k) obj) + mset (filter (\<lambda>(k, _). \<not> is_array_index k) obj)"
    by (simp add: object_entries_def)
  also have "\<dots> = mset obj" by (simp flip: multiset_partition)
  finally show ?thesis .
qed

lemma map_map_indexed: "map g (map_indexed f xs) = map_indexed (\<lambda>i x. g (f i x)) xs"
  by (simp add: map_indexed_def split_beta)

lemma map_indexed_only_index: "map_indexed (\<lambda>i x. h i) xs = map h [0..<length xs]"
  by (rule nth_equalityI) (simp_all add: map_indexed_nth)

end
