(* ===== verification/Showcase_Tabs.thy ===== *)
theory Showcase_Tabs
  imports JS_Object
begin

text \<open>
  The structure both documentation components render: a \<open>TabView\<close> of \<open>TabPanel\<close>s,
  one per sample source held in the component's \<open>sources\<close> object, each showing a
  \<open>LiveEditor\<close>.  A sample source is \<open>{tabName, content}\<close>; its key in \<open>sources\<close>
  (\<open>'class'\<close>, \<open>'hooks'\<close>, \<open>'ts'\<close>) is handed to the editor with it.  The
  \<open>TabPanel\<close> key is the template literal \<open>`source_${index}`\<close> of the position in
  \<open>Object.entries(this.sources)\<close>, and the whole list is guarded by
  \<open>this.sources &&\<close>, which renders nothing when \<open>sources\<close> is undefined.
\<close>

record 'c source =
  tabName :: string
  content :: 'c

text \<open>The props of a \<open>TabPanel\<close>: its React key (absent on the documentation panel),
  \<open>header\<close>, \<open>contentClassName\<close>, and the child it shows.\<close>

record 'b tab_panel =
  panel_key :: "string option"
  panel_header :: string
  panel_content_class :: "string option"
  panel_body :: 'b

text \<open>The props of a \<open>LiveEditor\<close>: \<open>name\<close>, \<open>sources\<close> (one \<open>[key, value]\<close>
  entry), and the optional \<open>service\<close> and \<open>data\<close>.\<close>

record 'c live_editor =
  editor_name :: string
  editor_sources :: "string \<times> 'c source"
  editor_service :: "string option"
  editor_data :: "string option"

definition source_key :: "nat \<Rightarrow> string" where
  "source_key index = ''source_'' @ string_of_nat index"

definition source_tabs ::
  "(string \<times> 'c source \<Rightarrow> 'b) \<Rightarrow> 'c source js_object option \<Rightarrow> 'b tab_panel list" where
  "source_tabs editor srcs =
     (case srcs of
        None \<Rightarrow> []
      | Some obj \<Rightarrow>
          map_indexed (\<lambda>index (key, value).
              \<lparr>panel_key = Some (source_key index), panel_header = tabName value,
               panel_content_class = Some ''source-content'', panel_body = editor (key, value)\<rparr>)
            (object_entries obj))"

section \<open>Facts\<close>

lemma source_key_inj: "source_key i = source_key j \<longleftrightarrow> i = j"
  by (simp add: source_key_def string_of_nat_inj)

lemma source_key_parse: "nat_of_string (drop 7 (source_key i)) = i"
  by (simp add: source_key_def)

lemma source_tabs_Some:
  "source_tabs editor (Some obj) =
     map_indexed (\<lambda>index (key, value).
         \<lparr>panel_key = Some (source_key index), panel_header = tabName value,
          panel_content_class = Some ''source-content'', panel_body = editor (key, value)\<rparr>)
       (object_entries obj)"
  by (simp add: source_tabs_def)

lemma length_object_entries [simp]: "length (object_entries obj) = length obj"
  using mset_object_entries[of obj] by (metis size_mset)

lemma source_tabs_keys:
  "map panel_key (source_tabs editor (Some obj)) =
     map (\<lambda>i. Some (source_key i)) [0..<length obj]"
  by (simp add: source_tabs_Some map_map_indexed split_beta map_indexed_only_index)

section \<open>Properties\<close>

text \<open>C11: the \<open>TabPanel\<close> keys of the source tabs are pairwise distinct, as React
  requires of the keys of a list, for every \<open>sources\<close> object; each key carries its
  tab's position, which reads back from the text after \<open>source_\<close>.\<close>

theorem source_tab_keys_distinct:
  "distinct (map panel_key (source_tabs editor (Some obj))) \<and>
   map (\<lambda>k. case k of Some t \<Rightarrow> nat_of_string (drop 7 t) | None \<Rightarrow> 0)
       (map panel_key (source_tabs editor (Some obj))) = [0..<length obj]"
proof
  have "inj (\<lambda>i. Some (source_key i))" by (simp add: inj_def source_key_inj)
  then show "distinct (map panel_key (source_tabs editor (Some obj)))"
    by (simp add: source_tabs_keys distinct_map inj_on_subset[of _ UNIV])
  show "map (\<lambda>k. case k of Some t \<Rightarrow> nat_of_string (drop 7 t) | None \<Rightarrow> 0)
       (map panel_key (source_tabs editor (Some obj))) = [0..<length obj]"
    by (simp add: source_tabs_keys source_key_parse comp_def)
qed

end
