(* ===== verification/DataTable_Style_Demo.thy ===== *)
theory DataTable_Style_Demo
  imports Showcase_Tabs
begin

text \<open>
  The class \<open>DataTableStyleDemo\<close> of \<open>src/src/showcase/datatable/DataTableStyleDemo.js\<close>
  (lines 10--69).  It keeps \<open>{cars}\<close> in its state, fills it from
  \<open>CarService.getCarsSmall()\<close> once mounted, and renders a page whose
  \<open>DataTable\<close> has four columns: the Year cells are drawn by \<open>yearTemplate\<close> (bold
  after 2010) and the rows are classed by \<open>rowClassName\<close> (\<open>p-highlight\<close> for a
  Jaguar).  How the \<open>DataTable\<close> draws these props is the library's contract and is
  written next to them.  The documentation component \<open>DataTableStyleDemoDoc\<close> that the
  page renders last, and the page under React's lifecycle, are in \<open>DataTable_Doc\<close>.
\<close>

section \<open>Row data and the two callbacks\<close>

text \<open>A row of the \<open>cars-small\<close> data: the fields the columns read.  JavaScript numbers
  in this data are whole years, modelled as \<open>int\<close>.\<close>

record car =
  vin :: string
  year :: int
  brand :: string
  color :: string

text \<open>\<open><span style={{fontWeight: fontWeight}}>{rowData.year}</span>\<close>.\<close>

record span =
  span_fontWeight :: string
  span_text :: string

definition yearTemplate :: "car \<Rightarrow> span" where
  "yearTemplate rowData =
     (let year' = year rowData;
          fontWeight = (if year' > 2010 then ''bold'' else ''normal'')
      in \<lparr>span_fontWeight = fontWeight, span_text = string_of_int (year rowData)\<rparr>)"

text \<open>\<open>{'p-highlight' : (brand === 'Jaguar')}\<close>: an object from class name to flag.\<close>

definition rowClassName :: "car \<Rightarrow> bool js_object" where
  "rowClassName rowData = (let brand' = brand rowData in [(''p-highlight'', brand' = ''Jaguar'')])"

section \<open>The demo component\<close>

record column =
  col_field :: string
  col_header :: string
  col_body :: "(car \<Rightarrow> span) option"

definition demo_columns :: "column list" where
  "demo_columns =
     [\<lparr>col_field = ''vin'', col_header = ''Vin'', col_body = None\<rparr>,
      \<lparr>col_field = ''year'', col_header = ''Year'', col_body = Some yearTemplate\<rparr>,
      \<lparr>col_field = ''brand'', col_header = ''Brand'', col_body = None\<rparr>,
      \<lparr>col_field = ''color'', col_header = ''Color'', col_body = None\<rparr>]"

record demo_state =
  cars :: "car list"

text \<open>The component: its state and whether the \<open>getCarsSmall()\<close> promise is pending.\<close>

record demo_component =
  state :: demo_state
  request_pending :: bool

definition demo_constructor :: demo_component where
  "demo_constructor = \<lparr>state = \<lparr>cars = []\<rparr>, request_pending = False\<rparr>"

definition componentDidMount :: "demo_component \<Rightarrow> demo_component" where
  "componentDidMount c = c\<lparr>request_pending := True\<rparr>"

text \<open>\<open>.then(data => this.setState({cars: data}))\<close>: the pending promise resolves once.\<close>

definition cars_resolved :: "car list \<Rightarrow> demo_component \<Rightarrow> demo_component" where
  "cars_resolved data c =
     (if request_pending c then c\<lparr>state := \<lparr>cars = data\<rparr>, request_pending := False\<rparr> else c)"

text \<open>The props \<open>render\<close> passes to the \<open>DataTable\<close> (lines 57--62).\<close>

record table_view =
  table_value :: "car list"
  table_rowClassName :: "car \<Rightarrow> bool js_object"
  table_columns :: "column list"

definition demo_render :: "demo_component \<Rightarrow> table_view" where
  "demo_render c =
     \<lparr>table_value = cars (state c), table_rowClassName = rowClassName, table_columns = demo_columns\<rparr>"

subsection \<open>The page around the table\<close>

text \<open>What \<open>AppContentContext\<close> hands to the changelog button.\<close>

record app_context =
  changelogText :: string

text \<open>\<open><button onClick={() => context.onChangelogBtnClick("dataTable")}
  className="layout-changelog-button">{context.changelogText}</button>\<close>: its label, the
  argument its click passes to \<open>onChangelogBtnClick\<close>, and its class.\<close>

record changelog_button =
  button_label :: string
  button_click_arg :: string
  button_className :: string

text \<open>The page \<open>render\<close> returns, in document order: the submenu element (a component
  with no props), the introduction with its heading, text and changelog button, the
  note above the table, the table, and the documentation element \<open>doc\<close>.\<close>

record 'd demo_page =
  page_submenu :: string
  page_title :: string
  page_intro :: string
  page_changelog :: changelog_button
  page_note :: string
  page_table :: table_view
  page_doc :: 'd

definition demo_page_render :: "app_context \<Rightarrow> demo_component \<Rightarrow> 'd \<Rightarrow> 'd demo_page" where
  "demo_page_render context c doc =
     \<lparr>page_submenu = ''DataTableSubmenu'',
      page_title = ''DataTable - Styling'',
      page_intro = ''Particular rows and cells can be styled based on data.'',
      page_changelog = \<lparr>button_label = changelogText context, button_click_arg = ''dataTable'',
                        button_className = ''layout-changelog-button''\<rparr>,
      page_note = ''This datatable highlights cell with a bolder font weight whose year value is greater than 2010 and highlights rows whose brand is a Jaguar.'',
      page_table = demo_render c,
      page_doc = doc\<rparr>"

subsection \<open>How the DataTable draws these props\<close>

text \<open>One row per element of \<open>value\<close>, in order; the row's classes are the keys of the
  \<open>rowClassName\<close> object whose flag is true; a cell is the column's \<open>body\<close> applied to
  the row, or the text of the column's field.\<close>

datatype cell = Text string | Styled span

record row_view =
  row_classes :: "string list"
  row_cells :: "cell list"

definition class_names :: "bool js_object \<Rightarrow> string list" where
  "class_names obj = map fst (filter snd obj)"

definition car_field :: "string \<Rightarrow> car \<Rightarrow> string" where
  "car_field f c =
     (if f = ''vin'' then vin c else if f = ''year'' then string_of_int (year c)
      else if f = ''brand'' then brand c else if f = ''color'' then color c else [])"

definition render_cell :: "car \<Rightarrow> column \<Rightarrow> cell" where
  "render_cell c col =
     (case col_body col of Some body \<Rightarrow> Styled (body c) | None \<Rightarrow> Text (car_field (col_field col) c))"

definition table_rows :: "table_view \<Rightarrow> row_view list" where
  "table_rows tv =
     map (\<lambda>c. \<lparr>row_classes = class_names (table_rowClassName tv c),
               row_cells = map (render_cell c) (table_columns tv)\<rparr>) (table_value tv)"

section \<open>The demo's lifecycle\<close>

datatype demo_event = Mount | Resolve "car list"

fun demo_step :: "demo_event \<Rightarrow> demo_component \<Rightarrow> demo_component" where
  "demo_step Mount c = componentDidMount c"
| "demo_step (Resolve data) c = cars_resolved data c"

definition demo_run :: "demo_event list \<Rightarrow> demo_component \<Rightarrow> demo_component" where
  "demo_run evs c = fold demo_step evs c"

text \<open>What the demo should show: the response to the request made on mounting.\<close>

fun first_response :: "bool \<Rightarrow> demo_event list \<Rightarrow> car list option" where
  "first_response p [] = None"
| "first_response p (Mount # evs) = first_response True evs"
| "first_response p (Resolve data # evs) = (if p then Some data else first_response p evs)"

section \<open>Facts\<close>

lemma demo_columns_cells:
  "map (render_cell c) demo_columns =
     [Text (vin c), Styled (yearTemplate c), Text (brand c), Text (color c)]"
  by (simp add: demo_columns_def render_cell_def car_field_def)

lemma class_names_rowClassName:
  "class_names (rowClassName c) = (if brand c = ''Jaguar'' then [''p-highlight''] else [])"
  by (simp add: class_names_def rowClassName_def)

lemma demo_run_Cons: "demo_run (ev # evs) c = demo_run evs (demo_step ev c)"
  by (simp add: demo_run_def)

lemma demo_run_no_mount:
  "Mount \<notin> set evs \<Longrightarrow> demo_run evs c = (if request_pending c then
     (case first_response True evs of None \<Rightarrow> c | Some d \<Rightarrow> c\<lparr>state := \<lparr>cars = d\<rparr>, request_pending := False\<rparr>)
     else c)"
proof (induction evs arbitrary: c)
  case Nil
  then show ?case by (simp add: demo_run_def)
next
  case (Cons ev evs)
  then obtain d where ev: "ev = Resolve d" by (cases ev) auto
  with Cons show ?case
    by (cases "request_pending c") (simp_all add: demo_run_Cons cars_resolved_def)
qed

section \<open>Properties\<close>

text \<open>C9: the rendered table.  One row per car of the state, in order; a row has the
  class \<open>p-highlight\<close> exactly when the car is a Jaguar; the cells are the vin, the year
  drawn bold after 2010 and normal otherwise, the brand and the colour.\<close>

theorem demo_table_styling:
  "table_rows (demo_render c) =
     map (\<lambda>car. \<lparr>row_classes = (if brand car = ''Jaguar'' then [''p-highlight''] else []),
                 row_cells = [Text (vin car),
                   Styled \<lparr>span_fontWeight = (if 2010 < year car then ''bold'' else ''normal''),
                           span_text = string_of_int (year car)\<rparr>,
                   Text (brand car), Text (color car)]\<rparr>)
       (cars (state c))"
  by (simp add: table_rows_def demo_render_def demo_columns_cells class_names_rowClassName
      yearTemplate_def)

text \<open>C10: the demo's data comes from the service: started by the constructor and mounted
  once, the table holds no cars until the \<open>getCarsSmall()\<close> promise resolves, and then
  exactly the cars it resolved with.\<close>

theorem demo_cars_from_service:
  assumes "length (filter (\<lambda>e. e = Mount) evs) \<le> 1"
  shows "cars (state (demo_run evs demo_constructor)) =
           (case first_response False evs of None \<Rightarrow> [] | Some d \<Rightarrow> d)"
  using assms
proof (induction evs)
  case Nil
  then show ?case by (simp add: demo_run_def demo_constructor_def)
next
  case (Cons ev evs)
  show ?case
  proof (cases ev)
    case Mount
    with Cons.prems have "Mount \<notin> set evs" by (auto simp: filter_empty_conv)
    with Mount show ?thesis
      by (simp add: demo_run_Cons demo_run_no_mount componentDidMount_def demo_constructor_def
          split: option.split)
  next
    case (Resolve d)
    have "demo_step ev demo_constructor = demo_constructor"
      using Resolve by (simp add: cars_resolved_def demo_constructor_def)
    with Cons Resolve show ?thesis by (simp add: demo_run_Cons)
  qed
qed

theorem demo_cars_from_service_witness:
  "let d = [\<lparr>vin = ''dsad231ff'', year = 2012, brand = ''VW'', color = ''Orange''\<rparr>];
       evs = [Mount, Resolve d]
   in length (filter (\<lambda>e. e = Mount) evs) \<le> 1 \<and>
      cars (state (demo_run evs demo_constructor)) =
        (case first_response False evs of None \<Rightarrow> [] | Some d \<Rightarrow> d)"
proof -
  let ?d = "[\<lparr>vin = ''dsad231ff'', year = 2012, brand = ''VW'', color = ''Orange''\<rparr>]"
  have h: "length (filter (\<lambda>e. e = Mount) [Mount, Resolve ?d]) \<le> 1" by simp
  show ?thesis using h demo_cars_from_service[OF h] unfolding Let_def by blast
qed

end
