(* ===== verification/React_Runtime.thy ===== *)
theory React_Runtime
  imports Prelude
begin

text \<open>
  The parts of React's semantics that the showcase pages rely on, as plain functions.
  React is a library the sources only call; what is written here is its documented
  contract, not code of the repository.
  \<^item> The events a mounted component sees after its first commit: a promise it started
    resolves with data, its parent renders it again, or it is unmounted.
  \<^item> The rule by which \<open>useEffect(effect, deps)\<close> decides to run the effect after a
    commit: on the first commit, when no dependency array is given, or when an element
    of the array changed.
  \<^item> The reconciliation of a class child when its parent renders again: React asks the
    child's \<open>shouldComponentUpdate\<close>, and on \<open>false\<close> keeps the child's last output
    without calling its \<open>render\<close>.
\<close>

section \<open>Events after mounting\<close>

datatype 'd react_event = Response 'd | Update | Unmount

fun is_response :: "'d react_event \<Rightarrow> bool" where
  "is_response (Response _) = True"
| "is_response _ = False"

section \<open>Effect dependencies\<close>

text \<open>\<open>prev\<close> is the dependency array of the effect's last run (\<open>None\<close> before the first
  commit, \<open>Some None\<close> when it was given no array); \<open>next\<close> is the array of the render
  being committed.  Dependencies are compared element by element, as \<open>Object.is\<close> does
  for the values they hold here.\<close>

definition effect_due :: "'a list option option \<Rightarrow> 'a list option \<Rightarrow> bool" where
  "effect_due prev next =
     (case (prev, next) of (Some (Some p), Some n) \<Rightarrow> p \<noteq> n | _ \<Rightarrow> True)"

section \<open>A class child under a re-rendering parent\<close>

text \<open>A child's committed output and how many times its \<open>render\<close> ran.\<close>

record 'v child =
  child_out :: 'v
  child_renders :: nat

definition child_mount :: "'v \<Rightarrow> 'v child" where
  "child_mount v = \<lparr>child_out = v, child_renders = 1\<rparr>"

text \<open>The parent renders again: the child renders again only if its
  \<open>shouldComponentUpdate\<close> answers \<open>True\<close>.\<close>

definition child_update :: "bool \<Rightarrow> 'v \<Rightarrow> 'v child \<Rightarrow> 'v child" where
  "child_update scu v c =
     (if scu then \<lparr>child_out = v, child_renders = Suc (child_renders c)\<rparr> else c)"

section \<open>Facts\<close>

lemma effect_due_simps [simp]:
  "effect_due None n1"
  "effect_due (Some None) n2"
  "effect_due q None"
  "effect_due (Some (Some p)) (Some n) \<longleftrightarrow> p \<noteq> n"
  by (simp_all add: effect_due_def split: option.split)

lemma child_update_False [simp]: "child_update False v c = c"
  by (simp add: child_update_def)

lemma child_update_True [simp]:
  "child_update True v c = \<lparr>child_out = v, child_renders = Suc (child_renders c)\<rparr>"
  by (simp add: child_update_def)

end
