(* ===== verification/DataTable_Doc.thy ===== *)
theory DataTable_Doc
  imports DataTable_Style_Demo React_Runtime
begin

text \<open>
  The class \<open>DataTableStyleDemoDoc\<close> of \<open>src/src/showcase/datatable/DataTableStyleDemo.js\<close>
  (lines 71--240) and the demo page under React's lifecycle.  The documentation component
  holds three sample sources of the demo, a class version and two function versions
  written with hooks (JavaScript and TypeScript), and shows each in a tab with a
  \<open>LiveEditor\<close>.  Each sample is modelled as the component its code defines, so that it
  can be run: a class component by its constructor, \<open>componentDidMount\<close>, promise
  callback and \<open>render\<close>; a function component by its \<open>useState\<close> initial value, its
  effect and the effect's dependency array, and the markup it returns.  The running
  demo is the class component of \<open>DataTable_Style_Demo\<close>; the page is that component
  with the documentation component as a child that its \<open>shouldComponentUpdate\<close> keeps
  from rendering again.
\<close>

section \<open>Car-table components under React\<close>

subsection \<open>Class components\<close>

text \<open>A class component over the state of \<open>DataTableStyleDemo\<close>: what its constructor
  leaves, what \<open>componentDidMount\<close> does, what the callback of its
  \<open>getCarsSmall()\<close> promise does, and the \<open>DataTable\<close> props its \<open>render\<close>
  returns.\<close>

record class_table =
  ct_init :: demo_component
  ct_didMount :: "demo_component \<Rightarrow> demo_component"
  ct_then :: "car list \<Rightarrow> demo_component \<Rightarrow> demo_component"
  ct_render :: "demo_component \<Rightarrow> table_view"

text \<open>A mounted instance: the component, whether it is still mounted, and how many
  times a state update reached it after it was unmounted (React ignores such an update
  and warns).\<close>

record class_state =
  ci_comp :: demo_component
  ci_mounted :: bool
  ci_warnings :: nat

definition class_mount :: "class_table \<Rightarrow> class_state" where
  "class_mount ct = \<lparr>ci_comp = ct_didMount ct (ct_init ct), ci_mounted = True, ci_warnings = 0\<rparr>"

text \<open>A response settles the outstanding promise: on a mounted instance its callback runs,
  on an unmounted one the \<open>setState\<close> it makes is ignored.  A render by the parent
  leaves the state as it is; unmounting ends the instance.\<close>

fun class_step :: "class_table \<Rightarrow> car list react_event \<Rightarrow> class_state \<Rightarrow> class_state" where
  "class_step ct (Response d) i =
     (if \<not> request_pending (ci_comp i) then i
      else if ci_mounted i then i\<lparr>ci_comp := ct_then ct d (ci_comp i)\<rparr>
      else i\<lparr>ci_comp := (ci_comp i)\<lparr>request_pending := False\<rparr>, ci_warnings := Suc (ci_warnings i)\<rparr>)"
| "class_step ct Update i = i"
| "class_step ct Unmount i = i\<lparr>ci_mounted := False\<rparr>"

text \<open>Whether an event makes the instance render again: a \<open>setState\<close> on a mounted
  instance, or a render of its parent.\<close>

definition class_rerenders :: "car list react_event \<Rightarrow> class_state \<Rightarrow> bool" where
  "class_rerenders e i \<longleftrightarrow>
     ci_mounted i \<and> (case e of Response _ \<Rightarrow> request_pending (ci_comp i) | Update \<Rightarrow> True | Unmount \<Rightarrow> False)"

subsection \<open>Function components with hooks\<close>

text \<open>A mounted function component: its \<open>useState\<close> slot, the dependency array of the
  effect's last run, the number of renders so far (render \<open>r\<close> creates the \<open>r\<close>-th
  \<open>new CarService()\<close>, so \<open>r\<close> stands for that object in a dependency array), the
  outstanding \<open>getCarsSmall()\<close> promises, whether it is mounted, the calls of
  \<open>getCarsSmall()\<close> made, and the state updates that reached it unmounted.\<close>

record hooks_state =
  hi_cars :: "car list"
  hi_deps :: "nat list option option"
  hi_renders :: nat
  hi_pending :: nat
  hi_mounted :: bool
  hi_requests :: nat
  hi_warnings :: nat

text \<open>A function component: the initial value of its \<open>useState\<close>, its effect, the
  dependency array of the effect in render \<open>r\<close> (\<open>None\<close> for no array), and the
  \<open>DataTable\<close> props its markup passes, from the state.\<close>

record hooks_table =
  ht_init :: "car list"
  ht_effect :: "hooks_state \<Rightarrow> hooks_state"
  ht_deps :: "nat \<Rightarrow> nat list option"
  ht_render :: "car list \<Rightarrow> table_view"

text \<open>A render followed by its commit: the body runs, then the effect runs if its
  dependencies call for it.\<close>

definition hooks_commit :: "hooks_table \<Rightarrow> hooks_state \<Rightarrow> hooks_state" where
  "hooks_commit ht i =
     (let r = hi_renders i; d = ht_deps ht r; i' = i\<lparr>hi_renders := Suc r\<rparr>
      in if effect_due (hi_deps i) d then (ht_effect ht i')\<lparr>hi_deps := Some d\<rparr> else i')"

definition hooks_mount :: "hooks_table \<Rightarrow> hooks_state" where
  "hooks_mount ht =
     hooks_commit ht
       \<lparr>hi_cars = ht_init ht, hi_deps = None, hi_renders = 0, hi_pending = 0, hi_mounted = True,
        hi_requests = 0, hi_warnings = 0\<rparr>"

text \<open>A response settles one outstanding promise; its callback \<open>data => setCars(data)\<close>
  sets the state, which renders the component again (ignored, with a warning, once it
  is unmounted).  A render by the parent renders it again.\<close>

fun hooks_step :: "hooks_table \<Rightarrow> car list react_event \<Rightarrow> hooks_state \<Rightarrow> hooks_state" where
  "hooks_step ht (Response d) i =
     (if hi_pending i = 0 then i
      else if hi_mounted i then hooks_commit ht (i\<lparr>hi_cars := d, hi_pending := hi_pending i - 1\<rparr>)
      else i\<lparr>hi_pending := hi_pending i - 1, hi_warnings := Suc (hi_warnings i)\<rparr>)"
| "hooks_step ht Update i = (if hi_mounted i then hooks_commit ht i else i)"
| "hooks_step ht Unmount i = i\<lparr>hi_mounted := False\<rparr>"

subsection \<open>What a component shows over a run\<close>

text \<open>After mounting and after each event: the rows the \<open>DataTable\<close> draws while the
  component is mounted, and the number of updates that reached it unmounted.\<close>

definition class_view :: "class_table \<Rightarrow> class_state \<Rightarrow> row_view list option \<times> nat" where
  "class_view ct i =
     (if ci_mounted i then Some (table_rows (ct_render ct (ci_comp i))) else None, ci_warnings i)"

definition hooks_view :: "hooks_table \<Rightarrow> hooks_state \<Rightarrow> row_view list option \<times> nat" where
  "hooks_view ht i =
     (if hi_mounted i then Some (table_rows (ht_render ht (hi_cars i))) else None, hi_warnings i)"

fun class_trace ::
  "class_table \<Rightarrow> class_state \<Rightarrow> car list react_event list \<Rightarrow> (row_view list option \<times> nat) list" where
  "class_trace ct i [] = [class_view ct i]"
| "class_trace ct i (e # es) = class_view ct i # class_trace ct (class_step ct e i) es"

fun hooks_trace ::
  "hooks_table \<Rightarrow> hooks_state \<Rightarrow> car list react_event list \<Rightarrow> (row_view list option \<times> nat) list" where
  "hooks_trace ht i [] = [hooks_view ht i]"
| "hooks_trace ht i (e # es) = hooks_view ht i # hooks_trace ht (hooks_step ht e i) es"

definition hooks_run :: "hooks_table \<Rightarrow> car list react_event list \<Rightarrow> hooks_state" where
  "hooks_run ht evs = fold (hooks_step ht) evs (hooks_mount ht)"

text \<open>A sample source is the code of one of the two kinds of component.\<close>

datatype table_sample = Class_Sample class_table | Hooks_Sample hooks_table

fun sample_trace :: "table_sample \<Rightarrow> car list react_event list \<Rightarrow> (row_view list option \<times> nat) list" where
  "sample_trace (Class_Sample ct) evs = class_trace ct (class_mount ct) evs"
| "sample_trace (Hooks_Sample ht) evs = hooks_trace ht (hooks_mount ht) evs"

text \<open>The running demo, \<open>DataTableStyleDemo\<close> itself, as a class component.\<close>

definition datatable_demo :: class_table where
  "datatable_demo =
     \<lparr>ct_init = demo_constructor, ct_didMount = componentDidMount, ct_then = cars_resolved,
      ct_render = demo_render\<rparr>"


section \<open>The sample sources of DataTableStyleDemoDoc\<close>

subsection \<open>The class version (\<open>'class'\<close> tab, lines 85--127)\<close>

definition class_sample_constructor :: demo_component where
  "class_sample_constructor = \<lparr>state = \<lparr>cars = []\<rparr>, request_pending = False\<rparr>"

definition class_sample_componentDidMount :: "demo_component \<Rightarrow> demo_component" where
  "class_sample_componentDidMount c = c\<lparr>request_pending := True\<rparr>"

definition class_sample_then :: "car list \<Rightarrow> demo_component \<Rightarrow> demo_component" where
  "class_sample_then data c =
     (if request_pending c then c\<lparr>state := \<lparr>cars = data\<rparr>, request_pending := False\<rparr> else c)"

definition class_sample_yearTemplate :: "car \<Rightarrow> span" where
  "class_sample_yearTemplate rowData =
     (let year' = year rowData;
          fontWeight = (if year' > 2010 then ''bold'' else ''normal'')
      in \<lparr>span_fontWeight = fontWeight, span_text = string_of_int (year rowData)\<rparr>)"

definition class_sample_rowClassName :: "car \<Rightarrow> bool js_object" where
  "class_sample_rowClassName rowData =
     (let brand' = brand rowData in [(''p-highlight'', brand' = ''Jaguar'')])"

definition class_sample_render :: "demo_component \<Rightarrow> table_view" where
  "class_sample_render c =
     \<lparr>table_value = cars (state c), table_rowClassName = class_sample_rowClassName,
      table_columns =
        [\<lparr>col_field = ''vin'', col_header = ''Vin'', col_body = None\<rparr>,
         \<lparr>col_field = ''year'', col_header = ''Year'', col_body = Some class_sample_yearTemplate\<rparr>,
         \<lparr>col_field = ''brand'', col_header = ''Brand'', col_body = None\<rparr>,
         \<lparr>col_field = ''color'', col_header = ''Color'', col_body = None\<rparr>]\<rparr>"

definition class_sample_table :: class_table where
  "class_sample_table =
       \<lparr>ct_init = class_sample_constructor, ct_didMount = class_sample_componentDidMount,
        ct_then = class_sample_then, ct_render = class_sample_render\<rparr>"

subsection \<open>The hooks version (\<open>'hooks'\<close> tab, lines 138--170)\<close>

text \<open>\<open>useEffect(() => { carservice.getCarsSmall().then(data => setCars(data)); }, [])\<close>:
  the effect makes one request, and its dependency array is empty in every render.\<close>

definition hooks_sample_effect :: "hooks_state \<Rightarrow> hooks_state" where
  "hooks_sample_effect i = i\<lparr>hi_pending := Suc (hi_pending i), hi_requests := Suc (hi_requests i)\<rparr>"

definition hooks_sample_deps :: "nat \<Rightarrow> nat list option" where
  "hooks_sample_deps r = Some []"

definition hooks_sample_yearTemplate :: "car \<Rightarrow> span" where
  "hooks_sample_yearTemplate = (\<lambda>rowData.
     let year' = year rowData;
         fontWeight = (if year' > 2010 then ''bold'' else ''normal'')
     in \<lparr>span_fontWeight = fontWeight, span_text = string_of_int (year rowData)\<rparr>)"

definition hooks_sample_rowClassName :: "car \<Rightarrow> bool js_object" where
  "hooks_sample_rowClassName = (\<lambda>rowData.
     let brand' = brand rowData in [(''p-highlight'', brand' = ''Jaguar'')])"

definition hooks_sample_render :: "car list \<Rightarrow> table_view" where
  "hooks_sample_render cars' =
     \<lparr>table_value = cars', table_rowClassName = hooks_sample_rowClassName,
      table_columns =
        [\<lparr>col_field = ''vin'', col_header = ''Vin'', col_body = None\<rparr>,
         \<lparr>col_field = ''year'', col_header = ''Year'', col_body = Some hooks_sample_yearTemplate\<rparr>,
         \<lparr>col_field = ''brand'', col_header = ''Brand'', col_body = None\<rparr>,
         \<lparr>col_field = ''color'', col_header = ''Color'', col_body = None\<rparr>]\<rparr>"

definition hooks_sample_table :: hooks_table where
  "hooks_sample_table =
       \<lparr>ht_init = [], ht_effect = hooks_sample_effect, ht_deps = hooks_sample_deps,
        ht_render = hooks_sample_render\<rparr>"

subsection \<open>The TypeScript version (\<open>'ts'\<close> tab, lines 181--213)\<close>

text \<open>The hooks version with \<open>any\<close> annotations, which do not change what it computes.\<close>

definition ts_sample_effect :: "hooks_state \<Rightarrow> hooks_state" where
  "ts_sample_effect i = i\<lparr>hi_pending := Suc (hi_pending i), hi_requests := Suc (hi_requests i)\<rparr>"

definition ts_sample_deps :: "nat \<Rightarrow> nat list option" where
  "ts_sample_deps r = Some []"

definition ts_sample_yearTemplate :: "car \<Rightarrow> span" where
  "ts_sample_yearTemplate = (\<lambda>rowData.
     let year' = year rowData;
         fontWeight = (if year' > 2010 then ''bold'' else ''normal'')
     in \<lparr>span_fontWeight = fontWeight, span_text = string_of_int (year rowData)\<rparr>)"

definition ts_sample_rowClassName :: "car \<Rightarrow> bool js_object" where
  "ts_sample_rowClassName = (\<lambda>rowData.
     let brand' = brand rowData in [(''p-highlight'', brand' = ''Jaguar'')])"

definition ts_sample_render :: "car list \<Rightarrow> table_view" where
  "ts_sample_render cars' =
     \<lparr>table_value = cars', table_rowClassName = ts_sample_rowClassName,
      table_columns =
        [\<lparr>col_field = ''vin'', col_header = ''Vin'', col_body = None\<rparr>,
         \<lparr>col_field = ''year'', col_header = ''Year'', col_body = Some ts_sample_yearTemplate\<rparr>,
         \<lparr>col_field = ''brand'', col_header = ''Brand'', col_body = None\<rparr>,
         \<lparr>col_field = ''color'', col_header = ''Color'', col_body = None\<rparr>]\<rparr>"

definition ts_sample_table :: hooks_table where
  "ts_sample_table =
       \<lparr>ht_init = [], ht_effect = ts_sample_effect, ht_deps = ts_sample_deps,
        ht_render = ts_sample_render\<rparr>"

section \<open>DataTableStyleDemoDoc\<close>

definition datatable_doc_sources :: "table_sample source js_object" where
  "datatable_doc_sources =
     [(''class'', \<lparr>tabName = ''Class Source'', content = Class_Sample class_sample_table\<rparr>),
      (''hooks'', \<lparr>tabName = ''Hooks Source'', content = Hooks_Sample hooks_sample_table\<rparr>),
      (''ts'', \<lparr>tabName = ''TS Source'', content = Hooks_Sample ts_sample_table\<rparr>)]"

definition datatable_doc_shouldComponentUpdate :: bool where
  "datatable_doc_shouldComponentUpdate = False"

definition datatable_doc_editor :: "string \<times> table_sample source \<Rightarrow> table_sample live_editor" where
  "datatable_doc_editor src =
     \<lparr>editor_name = ''DataTableStyleDemo'', editor_sources = src,
      editor_service = Some ''CarService'', editor_data = Some ''cars-small''\<rparr>"

definition datatable_doc_render :: "table_sample live_editor tab_panel list" where
  "datatable_doc_render = source_tabs datatable_doc_editor (Some datatable_doc_sources)"

section \<open>The demo page under React\<close>

text \<open>The page: the running demo, and its last child \<open><DataTableStyleDemoDoc>\<close>
  (line 65) with the output it committed.  Whenever the demo renders again, React asks
  the child's \<open>shouldComponentUpdate\<close> whether to render it again.\<close>

record page_state =
  pg_demo :: class_state
  pg_doc :: "table_sample live_editor tab_panel list child"

definition page_mount :: page_state where
  "page_mount = \<lparr>pg_demo = class_mount datatable_demo, pg_doc = child_mount datatable_doc_render\<rparr>"

definition page_step :: "car list react_event \<Rightarrow> page_state \<Rightarrow> page_state" where
  "page_step e p =
     \<lparr>pg_demo = class_step datatable_demo e (pg_demo p),
      pg_doc = (if class_rerenders e (pg_demo p)
                then child_update datatable_doc_shouldComponentUpdate datatable_doc_render (pg_doc p)
                else pg_doc p)\<rparr>"

definition page_run :: "car list react_event list \<Rightarrow> page_state" where
  "page_run evs = fold page_step evs page_mount"

text \<open>The page as it is displayed after a run, in a given \<open>AppContentContext\<close>.\<close>

definition page_view :: "app_context \<Rightarrow> page_state \<Rightarrow> table_sample live_editor tab_panel list demo_page" where
  "page_view context p = demo_page_render context (ci_comp (pg_demo p)) (child_out (pg_doc p))"

text \<open>The data of the first response of a run, and whether a response arrives after the
  page was left before any response came.\<close>

fun first_page_response :: "car list react_event list \<Rightarrow> car list option" where
  "first_page_response [] = None"
| "first_page_response (Response d # es) = Some d"
| "first_page_response (_ # es) = first_page_response es"

fun late_response :: "car list react_event list \<Rightarrow> bool" where
  "late_response [] = False"
| "late_response (Response _ # es) = False"
| "late_response (Update # es) = late_response es"
| "late_response (Unmount # es) = list_ex is_response es"


text \<open>How a hooks sample follows the class demo: the same cars, mounted flag and
  warnings; one promise outstanding exactly when the demo's is; the effect has run once,
  with the empty dependency array.\<close>

definition hooks_follows_class :: "class_state \<Rightarrow> hooks_state \<Rightarrow> bool" where
  "hooks_follows_class i h \<longleftrightarrow>
     hi_cars h = cars (state (ci_comp i)) \<and> hi_mounted h = ci_mounted i \<and>
     hi_warnings h = ci_warnings i \<and>
     hi_pending h = (if request_pending (ci_comp i) then 1 else 0) \<and>
     hi_deps h = Some (Some []) \<and> hi_requests h = 1"

section \<open>Facts\<close>

subsection \<open>The samples against the running demo\<close>

text \<open>The samples' callbacks and markup are the demo's, and the class sample is the
  demo's component; a hooks sample whose effect has the empty dependency array and makes
  one request follows the demo event by event.\<close>

lemma sample_callbacks:
  "class_sample_yearTemplate = yearTemplate" "hooks_sample_yearTemplate = yearTemplate"
  "ts_sample_yearTemplate = yearTemplate"
  "class_sample_rowClassName = rowClassName" "hooks_sample_rowClassName = rowClassName"
  "ts_sample_rowClassName = rowClassName"
  by (simp_all add: fun_eq_iff class_sample_yearTemplate_def hooks_sample_yearTemplate_def
      ts_sample_yearTemplate_def yearTemplate_def class_sample_rowClassName_def
      hooks_sample_rowClassName_def ts_sample_rowClassName_def rowClassName_def)

lemma sample_renders:
  "class_sample_render = demo_render"
  "hooks_sample_render (cars (state c)) = demo_render c"
  "ts_sample_render (cars (state c)) = demo_render c"
  by (simp_all add: fun_eq_iff class_sample_render_def hooks_sample_render_def ts_sample_render_def
      demo_render_def demo_columns_def sample_callbacks)

lemma class_sample_is_demo: "class_sample_table = datatable_demo"
  by (simp add: class_sample_table_def datatable_demo_def class_sample_constructor_def
      demo_constructor_def fun_eq_iff class_sample_componentDidMount_def componentDidMount_def
      class_sample_then_def cars_resolved_def sample_renders)

lemma follows_mount:
  assumes "ht_init ht = []" "ht_deps ht = (\<lambda>r. Some [])"
    and "ht_effect ht = (\<lambda>i. i\<lparr>hi_pending := Suc (hi_pending i), hi_requests := Suc (hi_requests i)\<rparr>)"
  shows "hooks_follows_class (class_mount datatable_demo) (hooks_mount ht)"
  using assms
  by (simp add: hooks_follows_class_def class_mount_def hooks_mount_def hooks_commit_def
      datatable_demo_def demo_constructor_def componentDidMount_def)

lemma follows_step:
  assumes "ht_deps ht = (\<lambda>r. Some [])" and "hooks_follows_class i h"
  shows "hooks_follows_class (class_step datatable_demo e i) (hooks_step ht e h)"
proof (cases e)
  case (Response d)
  with assms show ?thesis
    by (auto simp: hooks_follows_class_def hooks_commit_def datatable_demo_def cars_resolved_def)
next
  case Update
  with assms show ?thesis by (simp add: hooks_follows_class_def hooks_commit_def)
next
  case Unmount
  with assms show ?thesis by (simp add: hooks_follows_class_def)
qed

lemma follows_view:
  assumes "\<And>c. ht_render ht (cars (state c)) = demo_render c" and "hooks_follows_class i h"
  shows "hooks_view ht h = class_view datatable_demo i"
  using assms by (simp add: hooks_follows_class_def hooks_view_def class_view_def datatable_demo_def)

lemma follows_trace:
  assumes "ht_deps ht = (\<lambda>r. Some [])" "\<And>c. ht_render ht (cars (state c)) = demo_render c"
    and "hooks_follows_class i h"
  shows "hooks_trace ht h evs = class_trace datatable_demo i evs"
  using assms(3)
proof (induction evs arbitrary: i h)
  case Nil
  then show ?case using follows_view[OF assms(2)] by simp
next
  case (Cons e evs)
  then show ?case using follows_view[OF assms(2)] follows_step[OF assms(1)] by simp
qed

lemma follows_run:
  assumes "ht_deps ht = (\<lambda>r. Some [])" and "hooks_follows_class i h"
  shows "hooks_follows_class (fold (class_step datatable_demo) evs i) (fold (hooks_step ht) evs h)"
  using assms(2)
proof (induction evs arbitrary: i h)
  case Nil
  then show ?case by simp
next
  case (Cons e evs)
  then show ?case using follows_step[OF assms(1)] by simp
qed

lemma hooks_sample_tables:
  "ht_init hooks_sample_table = []" "ht_deps hooks_sample_table = (\<lambda>r. Some [])"
  "ht_effect hooks_sample_table =
     (\<lambda>i. i\<lparr>hi_pending := Suc (hi_pending i), hi_requests := Suc (hi_requests i)\<rparr>)"
  "ht_render hooks_sample_table (cars (state c)) = demo_render c"
  "ht_init ts_sample_table = []" "ht_deps ts_sample_table = (\<lambda>r. Some [])"
  "ht_effect ts_sample_table =
     (\<lambda>i. i\<lparr>hi_pending := Suc (hi_pending i), hi_requests := Suc (hi_requests i)\<rparr>)"
  "ht_render ts_sample_table (cars (state c)) = demo_render c"
  by (simp_all add: hooks_sample_table_def ts_sample_table_def hooks_sample_deps_def ts_sample_deps_def
      fun_eq_iff hooks_sample_effect_def ts_sample_effect_def sample_renders)

subsection \<open>The page\<close>

lemma page_fold_demo:
  "pg_demo (fold page_step evs p) = fold (class_step datatable_demo) evs (pg_demo p)"
  by (induction evs arbitrary: p) (simp_all add: page_step_def)

lemma page_fold_doc:
  "pg_doc (fold page_step evs p) = pg_doc p"
  by (induction evs arbitrary: p) (simp_all add: page_step_def datatable_doc_shouldComponentUpdate_def)

lemma page_mount_demo:
  "pg_demo page_mount =
     \<lparr>ci_comp = \<lparr>state = \<lparr>cars = []\<rparr>, request_pending = True\<rparr>, ci_mounted = True, ci_warnings = 0\<rparr>"
  by (simp add: page_mount_def class_mount_def datatable_demo_def demo_constructor_def
      componentDidMount_def)

text \<open>Once the demo's promise has settled, nothing changes its state or its warnings.\<close>

lemma demo_settled_run:
  "\<not> request_pending (ci_comp i) \<Longrightarrow>
   ci_comp (fold (class_step datatable_demo) evs i) = ci_comp i \<and>
   ci_warnings (fold (class_step datatable_demo) evs i) = ci_warnings i"
proof (induction evs arbitrary: i)
  case Nil
  then show ?case by simp
next
  case (Cons e evs)
  then show ?case by (cases e) simp_all
qed

lemma demo_unmounted_run:
  "\<not> ci_mounted i \<Longrightarrow>
   ci_warnings (fold (class_step datatable_demo) evs i) =
     ci_warnings i + (if request_pending (ci_comp i) \<and> list_ex is_response evs then 1 else 0)"
proof (induction evs arbitrary: i)
  case Nil
  then show ?case by simp
next
  case (Cons e evs)
  show ?case
  proof (cases e)
    case (Response d)
    with Cons show ?thesis by (simp add: demo_settled_run)
  qed (use Cons in simp_all)
qed

lemma demo_pending_run:
  "ci_mounted i \<Longrightarrow> request_pending (ci_comp i) \<Longrightarrow>
   ci_warnings (fold (class_step datatable_demo) evs i) =
     ci_warnings i + (if late_response evs then 1 else 0)"
proof (induction evs arbitrary: i)
  case Nil
  then show ?case by simp
next
  case (Cons e evs)
  show ?case
  proof (cases e)
    case (Response d)
    let ?i = "class_step datatable_demo (Response d) i"
    have "\<not> request_pending (ci_comp ?i)" "ci_warnings ?i = ci_warnings i"
      using Cons.prems by (simp_all add: datatable_demo_def cars_resolved_def)
    with Response demo_settled_run[of ?i evs] show ?thesis by simp
  next
    case Update
    with Cons show ?thesis by simp
  next
    case Unmount
    with Cons.prems show ?thesis by (simp add: demo_unmounted_run)
  qed
qed

lemma demo_mounted_run:
  "Unmount \<notin> set evs \<Longrightarrow> ci_mounted i \<Longrightarrow>
   ci_mounted (fold (class_step datatable_demo) evs i) \<and>
   ci_warnings (fold (class_step datatable_demo) evs i) = ci_warnings i \<and>
   cars (state (ci_comp (fold (class_step datatable_demo) evs i))) =
     (if request_pending (ci_comp i)
      then (case first_page_response evs of None \<Rightarrow> cars (state (ci_comp i)) | Some d \<Rightarrow> d)
      else cars (state (ci_comp i)))"
proof (induction evs arbitrary: i)
  case Nil
  then show ?case by simp
next
  case (Cons e evs)
  show ?case
  proof (cases e)
    case (Response d)
    with Cons show ?thesis
      by (auto simp: datatable_demo_def cars_resolved_def)
  next
    case Update
    with Cons show ?thesis by simp
  next
    case Unmount
    with Cons.prems show ?thesis by simp
  qed
qed

section \<open>Properties\<close>

text \<open>C12: the sample sources shown by \<open>DataTableStyleDemoDoc\<close> behave as the running
  demo.  For every run of responses, renders by the parent and unmounting, each of the
  three samples (class, hooks, TypeScript) shows the same rows as \<open>DataTableStyleDemo\<close>
  after mounting and after every event, and warns about updates after unmounting exactly
  when the demo does.  For the hooks versions this rests on the effect's empty
  dependency array.\<close>

theorem doc_samples_behave_as_demo:
  "map (\<lambda>(_, src). sample_trace (content src) evs) datatable_doc_sources =
     replicate 3 (sample_trace (Class_Sample datatable_demo) evs)"
proof -
  have "hooks_trace hooks_sample_table (hooks_mount hooks_sample_table) evs =
        class_trace datatable_demo (class_mount datatable_demo) evs"
    "hooks_trace ts_sample_table (hooks_mount ts_sample_table) evs =
        class_trace datatable_demo (class_mount datatable_demo) evs"
    by (rule follows_trace, (simp_all only: hooks_sample_tables)[2],
        rule follows_mount, simp_all only: hooks_sample_tables)+
  then show ?thesis
    by (simp add: datatable_doc_sources_def class_sample_is_demo numeral_3_eq_3)
qed

text \<open>C13: the hooks samples fetch the cars once.  Whatever the run, each of the two
  function components calls \<open>getCarsSmall()\<close> exactly once and never has more than one
  promise outstanding: renders after the first do not run the effect again.\<close>

theorem hooks_samples_fetch_once:
  "hi_requests (hooks_run hooks_sample_table evs) = 1 \<and> hi_pending (hooks_run hooks_sample_table evs) \<le> 1 \<and>
   hi_requests (hooks_run ts_sample_table evs) = 1 \<and> hi_pending (hooks_run ts_sample_table evs) \<le> 1"
proof -
  have "hooks_follows_class (fold (class_step datatable_demo) evs (class_mount datatable_demo))
          (hooks_run hooks_sample_table evs)"
    "hooks_follows_class (fold (class_step datatable_demo) evs (class_mount datatable_demo))
          (hooks_run ts_sample_table evs)"
    unfolding hooks_run_def
    by (rule follows_run, simp only: hooks_sample_tables,
        rule follows_mount, simp_all only: hooks_sample_tables)+
  then show ?thesis by (simp add: hooks_follows_class_def)
qed

text \<open>C14: the documentation under the demo is rendered once.  Whatever the demo does
  (its cars arriving, its parent rendering it again, unmounting), React never calls
  \<open>DataTableStyleDemoDoc.render\<close> again, and the tabs it committed on mounting stay.\<close>

theorem demo_doc_rendered_once:
  "child_renders (pg_doc (page_run evs)) = 1 \<and> child_out (pg_doc (page_run evs)) = datatable_doc_render"
  by (simp add: page_run_def page_fold_doc page_mount_def child_mount_def)

text \<open>C17: a response after the page was left.  \<open>componentDidMount\<close> starts a request
  that nothing cancels: the demo receives a state update after unmounting exactly when the
  page is left before the cars arrive and they arrive later, and then once.\<close>

theorem demo_late_response_warns:
  "ci_warnings (pg_demo (page_run evs)) = (if late_response evs then 1 else 0)"
  using demo_pending_run[of "pg_demo page_mount" evs]
  by (simp add: page_run_def page_fold_demo page_mount_demo)

end
