(* ===== verification/Fieldset_Doc.thy ===== *)
theory Fieldset_Doc
  imports Showcase_Tabs React_Runtime
begin

text \<open>
  \<open>src/src/showcase/fieldset/FieldsetDoc.js\<close>: the documentation page of the Fieldset
  component.  Its \<open>sources\<close> object holds three versions of the Fieldset demo (class,
  hooks, TypeScript); \<open>render\<close> shows a Documentation tab (import line, code examples,
  tables of properties, events and style classes, dependencies) followed by one
  \<open>LiveEditor\<close> tab per source.  A JSX element is modelled by its attributes and its
  child; JSX joins the lines of a text child with single spaces, so each sample's
  paragraph is one string.  The headings and paragraphs of the Documentation tab are
  kept as their text, with inline markup (\<open><i>\<close>, \<open><Link>\<close>) reduced to the text it
  wraps.
\<close>

section \<open>JSX of the samples and examples\<close>

datatype attr_val = StrLit string | Expr string

text \<open>The child of a Fieldset: a \<open><p>\<close> paragraph (the samples) or bare text (the code
  examples of the Documentation tab).\<close>

datatype fs_child = Para string | Plain string

record fieldset_el =
  fs_attrs :: "(string \<times> attr_val) list"
  fs_child :: fs_child

datatype demo_node = FieldsetNode fieldset_el | Br

definition godfather_plot :: string where
  "godfather_plot =
     ''The story begins as Don Vito Corleone, the head of a New York Mafia family, oversees his daughter's wedding.'' @
     '' His beloved son Michael has just come home from the war, but does not intend to become part of his father's business.'' @
     '' Through Michael's life the nature of the family business becomes clear.'' @
     '' The business of the family is just like the head of the family, kind and benevolent to those who give respect, but given to ruthless violence whenever anything stands against the good of the family.''"

text \<open>The class version: \<open>render()\<close> returns a plain Fieldset, a line break and a
  toggleable Fieldset.\<close>

definition fieldset_class_sample :: "demo_node list" where
  "fieldset_class_sample =
     [FieldsetNode \<lparr>fs_attrs = [(''legend'', StrLit ''Godfather I'')], fs_child = Para godfather_plot\<rparr>,
      Br,
      FieldsetNode \<lparr>fs_attrs = [(''legend'', StrLit ''Godfather I''), (''toggleable'', Expr ''true'')],
                    fs_child = Para godfather_plot\<rparr>]"

definition fieldset_hooks_sample :: "demo_node list" where
  "fieldset_hooks_sample =
     [FieldsetNode \<lparr>fs_attrs = [(''legend'', StrLit ''Godfather I'')], fs_child = Para godfather_plot\<rparr>,
      Br,
      FieldsetNode \<lparr>fs_attrs = [(''legend'', StrLit ''Godfather I''), (''toggleable'', Expr ''true'')],
                    fs_child = Para godfather_plot\<rparr>]"

definition fieldset_ts_sample :: "demo_node list" where
  "fieldset_ts_sample =
     [FieldsetNode \<lparr>fs_attrs = [(''legend'', StrLit ''Godfather I'')], fs_child = Para godfather_plot\<rparr>,
      Br,
      FieldsetNode \<lparr>fs_attrs = [(''legend'', StrLit ''Godfather I''), (''toggleable'', Expr ''true'')],
                    fs_child = Para godfather_plot\<rparr>]"

definition fieldset_doc_sources :: "demo_node list source js_object" where
  "fieldset_doc_sources =
     [(''class'', \<lparr>tabName = ''Class Source'', content = fieldset_class_sample\<rparr>),
      (''hooks'', \<lparr>tabName = ''Hooks Source'', content = fieldset_hooks_sample\<rparr>),
      (''ts'', \<lparr>tabName = ''TS Source'', content = fieldset_ts_sample\<rparr>)]"

definition fieldset_doc_shouldComponentUpdate :: bool where
  "fieldset_doc_shouldComponentUpdate = False"

section \<open>The Documentation tab\<close>

record doc_prop =
  prop_name :: string
  prop_type :: string
  prop_default :: string
  prop_description :: string

record doc_event =
  event_name :: string
  event_params :: "string list"
  event_description :: string

record fieldset_documentation =
  doc_text :: "string list"
  doc_import :: string
  doc_examples :: "fieldset_el list"
  doc_properties :: "doc_prop list"
  doc_events :: "doc_event list"
  doc_styling :: "(string \<times> string) list"
  doc_dependencies :: string

text \<open>The Getting Started, controlled and uncontrolled examples.\<close>

definition fieldset_doc_examples :: "fieldset_el list" where
  "fieldset_doc_examples =
     [\<lparr>fs_attrs = [(''legend'', StrLit ''Godfather I'')], fs_child = Plain godfather_plot\<rparr>,
      \<lparr>fs_attrs = [(''legend'', StrLit ''Godfather I''), (''toggleable'', Expr ''true''),
                   (''collapsed'', Expr ''this.state.panelCollapsed''),
                   (''onToggle'', Expr ''(e) => this.setState({panelCollapsed: e.value})'')],
       fs_child = Plain godfather_plot\<rparr>,
      \<lparr>fs_attrs = [(''legend'', StrLit ''Godfather I''), (''toggleable'', Expr ''true'')],
       fs_child = Plain godfather_plot\<rparr>]"

definition fieldset_properties_doc :: "doc_prop list" where
  "fieldset_properties_doc =
     [\<lparr>prop_name = ''id'', prop_type = ''string'', prop_default = ''null'',
       prop_description = ''Unique identifier of the element.''\<rparr>,
      \<lparr>prop_name = ''legend'', prop_type = ''string'', prop_default = ''null'',
       prop_description = ''Header text of the fieldset.''\<rparr>,
      \<lparr>prop_name = ''className'', prop_type = ''string'', prop_default = ''null'',
       prop_description = ''Style class of the element.''\<rparr>,
      \<lparr>prop_name = ''style'', prop_type = ''object'', prop_default = ''null'',
       prop_description = ''Inline style of the element.''\<rparr>,
      \<lparr>prop_name = ''toggleable'', prop_type = ''boolean'', prop_default = ''false'',
       prop_description = ''When specified, content can toggled by clicking the legend.''\<rparr>,
      \<lparr>prop_name = ''collapsed'', prop_type = ''boolean'', prop_default = ''false'',
       prop_description = ''Defines the default visibility state of the content.''\<rparr>]"

definition fieldset_events_doc :: "doc_event list" where
  "fieldset_events_doc =
     [\<lparr>event_name = ''onCollapse'', event_params = [''event.originalEvent: Browser event ''],
       event_description = ''Callback to invoke when an active tab is collapsed by clicking on the header.''\<rparr>,
      \<lparr>event_name = ''onExpand'', event_params = [''event.originalEvent: Browser event ''],
       event_description = ''Callback to invoke when a tab gets expanded.''\<rparr>,
      \<lparr>event_name = ''onToggle'',
       event_params = [''event.originalEvent: browser event '', ''event.value: Collapsed state as a boolean''],
       event_description = ''Callback to invoke when a tab gets expanded.''\<rparr>,
      \<lparr>event_name = ''onClick'', event_params = [''event Browser event ''],
       event_description = ''Callback to invoke when fieldset is clicked.''\<rparr>]"

definition fieldset_styling_doc :: "(string \<times> string) list" where
  "fieldset_styling_doc =
     [(''p-fieldset'', ''Fieldset element.''), (''p-fieldset-toggleable'', ''Toggleable fieldset element.''),
      (''p-fieldset-legend'', ''Legend element.''), (''p-fieldset-content'', ''Content element.'')]"

text \<open>The headings and paragraphs of the tab, in page order.\<close>

definition fieldset_doc_text :: "string list" where
  "fieldset_doc_text =
     [''Import'', ''Getting Started'',
      ''Panel is a container component that accepts content as its children.'',
      ''Instead of simple strings, legend propery also can be used to provide custom content as JSX.'',
      ''Toggleable'',
      ''Content of the fieldset can be expanded and collapsed using toggleable option. A toggleable fieldset can either be used as a Controlled or Uncontrolled component.'',
      ''In controlled mode, collapsed and onToggle properties need to be defined to control the collapsed state.'',
      ''In uncontrolled mode, only toggleable property needs to be enabled. Initial state can be still be provided using the collapsed property in uncontrolled mode however it is evaluated at initial rendering and ignored in further updates. If you programmatically need to update the collapsed state, prefer to use the component as controlled.'',
      ''Properties'', ''Events'', ''Styling'',
      ''Following is the list of structural style classes, for theming classes visit  theming page.'',
      ''Dependencies'', ''None.'']"

definition fieldset_documentation_tab :: fieldset_documentation where
  "fieldset_documentation_tab =
     \<lparr>doc_text = fieldset_doc_text,
      doc_import = ''import {Fieldset} from 'primereact/fieldset';'',
      doc_examples = fieldset_doc_examples,
      doc_properties = fieldset_properties_doc,
      doc_events = fieldset_events_doc,
      doc_styling = fieldset_styling_doc,
      doc_dependencies = ''None.''\<rparr>"

section \<open>render\<close>

datatype fieldset_panel_body =
    DocumentationBody fieldset_documentation
  | EditorBody "demo_node list live_editor"

definition fieldset_doc_editor :: "string \<times> demo_node list source \<Rightarrow> fieldset_panel_body" where
  "fieldset_doc_editor src =
     EditorBody \<lparr>editor_name = ''FieldsetDemo'', editor_sources = src,
                 editor_service = None, editor_data = None\<rparr>"

definition fieldset_doc_render :: "fieldset_panel_body tab_panel list" where
  "fieldset_doc_render =
     \<lparr>panel_key = None, panel_header = ''Documentation'', panel_content_class = None,
      panel_body = DocumentationBody fieldset_documentation_tab\<rparr>
     # source_tabs fieldset_doc_editor (Some fieldset_doc_sources)"

text \<open>\<open>FieldsetDoc\<close> after its parent rendered it \<open>n\<close> more times: each time React
  asks \<open>shouldComponentUpdate\<close> first.\<close>

definition fieldset_doc_updates :: "nat \<Rightarrow> fieldset_panel_body tab_panel list child" where
  "fieldset_doc_updates n =
     (child_update fieldset_doc_shouldComponentUpdate fieldset_doc_render ^^ n)
       (child_mount fieldset_doc_render)"

section \<open>Properties\<close>

text \<open>C15: \<open>FieldsetDoc\<close> is rendered once.  However often its parent renders again,
  React never calls \<open>FieldsetDoc.render\<close> a second time and the tabs it committed first,
  with their \<open>LiveEditor\<close>s, stay as they are.\<close>

theorem fieldset_doc_rendered_once:
  "child_renders (fieldset_doc_updates n) = 1 \<and> child_out (fieldset_doc_updates n) = fieldset_doc_render"
proof -
  have "(child_update fieldset_doc_shouldComponentUpdate fieldset_doc_render ^^ n) c = c" for c
    by (induction n) (simp_all add: fieldset_doc_shouldComponentUpdate_def)
  then show ?thesis by (simp add: fieldset_doc_updates_def child_mount_def)
qed

end
