(* ===== verification/Spec2Isabelle.thy ===== *)
theory Spec2Isabelle
  imports Messages_Lifecycle DataTable_Doc Fieldset_Doc
begin

text \<open>
  \<^bold>\<open>A verification library for the PrimeReact excerpt: the Messages feed and the
  showcase pages.\<close>

  \<^bold>\<open>Sources.\<close>  The repository excerpt has three source files:
  \<^item> \<open>src/components/lib/messages/messages.d.ts\<close> declares the \<open>Messages\<close>
    component: the descriptor \<open>MessagesMessage\<close>, the state \<open>MessagesState\<close> (a list
    of \<open>{_pId, message}\<close>), the callbacks \<open>onRemove\<close> and \<open>onClick\<close> of
    \<open>MessagesProps\<close>, and the imperative methods \<open>show\<close>, \<open>clear\<close>,
    \<open>replace\<close>, \<open>remove\<close>.  The implementation of these methods is not in the
    repository.  The data is translated from the declaration; the behaviour of the
    methods is modelled from the specification (sections 4 to 9).
  \<^item> \<open>src/src/showcase/datatable/DataTableStyleDemo.js\<close>: the class
    \<open>DataTableStyleDemo\<close> (a \<open>DataTable\<close> whose cells and rows are styled from the
    row data by \<open>yearTemplate\<close> and \<open>rowClassName\<close>, filled by
    \<open>componentDidMount\<close> from \<open>CarService.getCarsSmall\<close>) and the class
    \<open>DataTableStyleDemoDoc\<close> (three tabs of sample source: class, hooks and
    TypeScript, and \<open>shouldComponentUpdate\<close> returning \<open>false\<close>).
  \<^item> \<open>src/src/showcase/fieldset/FieldsetDoc.js\<close>: the class \<open>FieldsetDoc\<close>, the
    Fieldset documentation page: a Documentation tab followed by one tab per sample,
    and \<open>shouldComponentUpdate\<close> returning \<open>false\<close>.

  \<^bold>\<open>How the parts interact.\<close>  The Messages controller owns the list of displayed
  entries.  It hands every new list to the Renderer (\<open>Render\<close>), calls
  \<open>onRemove\<close>/\<open>onClick\<close>, and keeps one timer per non-sticky entry with the host's
  timer service, which delivers \<open>Fire k\<close> when entry \<open>k\<close>'s deadline is reached.  The
  demo page renders its table and, as its last child, \<open>DataTableStyleDemoDoc\<close>; React
  re-renders the page when the cars arrive or its parent renders it, and asks the
  child's \<open>shouldComponentUpdate\<close> each time.  Both documentation pages build their
  source tabs the same way, from \<open>Object.entries(this.sources).map(([key, value],
  index) => ...)\<close>, into \<open>TabPanel\<close>s keyed \<open>source_<index>\<close>.

  \<^bold>\<open>Theories.\<close>
  \<^item> \<open>Prelude\<close>: the type names \<open>pid\<close> and \<open>time\<close>, the \<open>feed_defs\<close> collection, and
    lemmas on filters, association lists and sorted lists shared by the components.
  \<^item> \<open>Messages_Types\<close>: the data of \<open>messages.d.ts\<close> (\<open>severity\<close>, the record
    \<open>message\<close>, \<open>entry\<close>, \<open>one_or_many\<close>, the outputs \<open>feed_output\<close>) and the
    documented defaults (\<open>is_closable\<close>, \<open>is_sticky\<close>, \<open>effective_life\<close>; the fallback
    of a non-positive \<open>life\<close> to 3000 is from specification section 4.1).
  \<^item> \<open>Messages_Controller\<close>: the controller state \<open>ctrl\<close> (entries, sequence-id
    counter, timer table as an association list from id to deadline, clock) and one
    definition per method: \<open>messages_show\<close>, \<open>messages_clear\<close>, \<open>messages_replace\<close>,
    \<open>messages_remove\<close> (via \<open>remove_one\<close>, \<open>remove_each\<close>, \<open>drop_entry\<close>),
    \<open>messages_click\<close>, and the host's \<open>timer_fire\<close> and \<open>clock_advance\<close>.  Each
    returns the new state and the outputs in the order they are produced.  A reference
    (\<open>msg_ref\<close>) is the tagged match strategy of specification section 9: caller id or
    the entry's handle.  The invariant \<open>feed_inv\<close> says that ids strictly increase and
    lie below the counter, and that the timer table has exactly one timer per
    non-sticky entry, in display order.  The lemma groups show that every operation
    keeps \<open>feed_inv\<close>, that removal only drops entries, and how a removal by caller
    id or by handle resolves.  Claims C4, C6 and C8.
  \<^item> \<open>Messages_Lifecycle\<close>: the events of the feed (\<open>feed_event\<close>: the public calls,
    a click, the close affordance, a timer firing, time passing), their step function
    \<open>exec_event\<close>, the host's guards \<open>host_allows\<close>, runs over event lists, and the
    inductive set \<open>reachable\<close>.  The lemma groups show the invariant and "no timer
    is overdue" on every reachable state, that ids are never reused, that a timer
    keeps its deadline until its own entry is removed, that sticky entries are only
    removed explicitly, and that the host can always let time pass.  Claims C1, C2,
    C3, C5 and C7.
  \<^item> \<open>JS_Object\<close>: the JavaScript semantics the pages rely on: decimal printing and
    parsing of numbers (\<open>string_of_nat\<close>, \<open>nat_of_string\<close>, with their round trip),
    array-index keys, the order of \<open>Object.entries\<close> (\<open>object_entries\<close>: index keys
    ascending, then the other keys in insertion order) and \<open>Array.prototype.map\<close>
    with an index (\<open>map_indexed\<close>).
  \<^item> \<open>Showcase_Tabs\<close>: the \<open>LiveEditor\<close> props, the \<open>TabPanel\<close> record and
    \<open>source_tabs\<close>, the tab construction both pages share.  Claim C11.
  \<^item> \<open>React_Runtime\<close>: React's contract as far as the pages use it: the events a
    mounted component sees, the rule by which \<open>useEffect\<close> reruns an effect from its
    dependency array, and the reconciliation of a class child through its
    \<open>shouldComponentUpdate\<close>.
  \<^item> \<open>DataTable_Style_Demo\<close>: \<open>DataTableStyleDemo\<close> (constructor,
    \<open>componentDidMount\<close>, the promise callback, \<open>yearTemplate\<close>, \<open>rowClassName\<close>,
    the \<open>DataTable\<close> props and the whole page \<open>render\<close> returns), the drawing of
    rows by \<open>DataTable\<close>, and the demo's own mount/response lifecycle.  Claims C9
    and C10.
  \<^item> \<open>DataTable_Doc\<close>: class and hooks components that show a car table, run under
    React (\<open>class_step\<close>, \<open>hooks_step\<close>, their traces); the three samples as such
    components; \<open>DataTableStyleDemoDoc\<close> (\<open>sources\<close>, \<open>shouldComponentUpdate\<close>,
    \<open>render\<close>); and the page: the demo with the documentation as its child
    (\<open>page_step\<close>, \<open>page_run\<close>).  The samples are shown to follow the demo event by
    event through a simulation relation, \<open>hooks_follows_class\<close>.  Claims C12, C13,
    C14 and C17.
  \<^item> \<open>Fieldset_Doc\<close>: \<open>FieldsetDoc\<close>: the samples as JSX nodes, the Documentation tab
    (text, code examples, property, event and styling tables), \<open>render\<close>, and the
    component under renders of its parent.  Claim C15.
  \<^item> This theory: the page as a whole (claim C16).

  \<^bold>\<open>Host assumptions, bounds and fuel.\<close>  No definition needs fuel: every operation
  is structural recursion or a fold over a finite list.  Time is a \<open>nat\<close> of
  milliseconds and deadlines are \<open>now + effective_life\<close>, with no wrap-around.  The
  host timer service is \<open>host_allows\<close>: it fires a timer only while the timer is
  outstanding and due, and it advances the clock only up to the earliest outstanding
  deadline.  So a timer fires exactly at its deadline, which is the timing that
  \<open>setTimeout\<close> promises up to scheduling delay.  This restriction cannot stop the
  clock: from every reachable state the host can reach any later time by firing the
  earliest timer and advancing (\<open>host_reaches_time\<close>), and once time has passed a
  deadline the entry is gone (C7).  A browser's \<open>setTimeout\<close> fires at once for a
  delay above \<open>2^31 - 1\<close> ms; the model follows the specification and schedules
  such a \<open>life\<close> as given.  On the React side, a promise settles at most once, and
  a state update from a settled promise on an unmounted component is ignored and
  counted as a warning, as React reports it before version 18.

  \<^bold>\<open>Not modelled.\<close>  \<open>getElement\<close> (a DOM reference); the rendering options
  \<open>pt\<close>, \<open>ptOptions\<close>, icons and CSS transitions of the feed; the internals of the
  library components \<open>DataTable\<close>, \<open>TabView\<close>, \<open>LiveEditor\<close>, \<open>Fieldset\<close>,
  \<open>CodeHighlight\<close> and \<open>CarService\<close>, of which only the contract the pages use is
  written down; the import lines of the samples; the wrapping \<open>div\<close>s and their class
  names on the pages.  React's bail-out of a \<open>useState\<close> update with an unchanged
  value is not modelled: it only skips a render whose rows would be the same.
\<close>

section \<open>Properties across components\<close>



end
